theory Spec2Isabelle
  imports Main
begin

section \<open>Strings\<close>

text \<open>
  A string of the source is modelled by the list of the bytes of its UTF-8 encoding, as a
  \<^typ>\<open>string\<close>: a character of the ASCII range is one byte, any other character is a
  sequence of two to four bytes from \<open>0x80\<close> upwards. Every pattern that the source
  searches for is ASCII, so that searching the bytes finds what searching the characters
  finds.
\<close>

fun startsWith :: "string \<Rightarrow> string \<Rightarrow> bool" where
  "startsWith s [] = True"
| "startsWith [] (p # ps) = False"
| "startsWith (c # cs) (p # ps) = (c = p \<and> startsWith cs ps)"

fun includes_str :: "string \<Rightarrow> string \<Rightarrow> bool" where
  "includes_str [] p = (p = [])"
| "includes_str (c # cs) p = (startsWith (c # cs) p \<or> includes_str cs p)"

lemma startsWith_length: "startsWith s p \<Longrightarrow> length p \<le> length s"
  by (induction s p rule: startsWith.induct) auto

definition lower_char :: "char \<Rightarrow> char" where
  "lower_char c =
     (let n = (of_char c :: nat) in if 65 \<le> n \<and> n \<le> 90 then char_of (n + 32) else c)"

text \<open>
  \<open>toLowerCase\<close>. The letters A to Z are folded. Two characters outside ASCII have a
  lower case with an ASCII letter in it and are folded as well: the Kelvin sign U+212A
  becomes \<open>k\<close>, and U+0130 becomes \<open>i\<close> followed by the combining dot U+0307. The lower
  case of every other character outside ASCII is outside ASCII again; its bytes are left
  as they are, which changes the outcome of no search for an ASCII pattern.
\<close>

definition kelvin_sign :: string where
  "kelvin_sign = [CHR 0xE2, CHR 0x84, CHR 0xAA]"

definition capital_i_with_dot :: string where
  "capital_i_with_dot = [CHR 0xC4, CHR 0xB0]"

fun toLowerCase :: "string \<Rightarrow> string" where
  "toLowerCase [] = []"
| "toLowerCase (c # cs) =
     (if startsWith (c # cs) kelvin_sign then CHR ''k'' # toLowerCase (drop 2 cs)
      else if startsWith (c # cs) capital_i_with_dot
      then [CHR ''i'', CHR 0xCC, CHR 0x87] @ toLowerCase (drop 1 cs)
      else lower_char c # toLowerCase cs)"

text \<open>
  The white space that \<open>trim\<close> removes: the characters tab, line feed, vertical tab,
  form feed, carriage return and space, and U+00A0, U+1680, U+2000 to U+200A, U+2028,
  U+2029, U+202F, U+205F, U+3000 and U+FEFF, each as its bytes.
\<close>

definition white_space :: "string list" where
  "white_space =
     [[CHR 0x09], [CHR 0x0A], [CHR 0x0B], [CHR 0x0C], [CHR 0x0D], [CHR 0x20],
      [CHR 0xC2, CHR 0xA0], [CHR 0xE1, CHR 0x9A, CHR 0x80],
      [CHR 0xE2, CHR 0x80, CHR 0x80], [CHR 0xE2, CHR 0x80, CHR 0x81],
      [CHR 0xE2, CHR 0x80, CHR 0x82], [CHR 0xE2, CHR 0x80, CHR 0x83],
      [CHR 0xE2, CHR 0x80, CHR 0x84], [CHR 0xE2, CHR 0x80, CHR 0x85],
      [CHR 0xE2, CHR 0x80, CHR 0x86], [CHR 0xE2, CHR 0x80, CHR 0x87],
      [CHR 0xE2, CHR 0x80, CHR 0x88], [CHR 0xE2, CHR 0x80, CHR 0x89],
      [CHR 0xE2, CHR 0x80, CHR 0x8A], [CHR 0xE2, CHR 0x80, CHR 0xA8],
      [CHR 0xE2, CHR 0x80, CHR 0xA9], [CHR 0xE2, CHR 0x80, CHR 0xAF],
      [CHR 0xE2, CHR 0x81, CHR 0x9F], [CHR 0xE3, CHR 0x80, CHR 0x80],
      [CHR 0xEF, CHR 0xBB, CHR 0xBF]]"

text \<open>\<open>strip_start ws s\<close> removes from the start of \<open>s\<close> every leading member of \<open>ws\<close>.\<close>

function strip_start :: "string list \<Rightarrow> string \<Rightarrow> string" where
  "strip_start ws s =
     (case find (\<lambda>w. w \<noteq> [] \<and> startsWith s w) ws of
        None \<Rightarrow> s
      | Some w \<Rightarrow> strip_start ws (drop (length w) s))"
  by pat_completeness auto
termination strip_start
proof (relation "measure (\<lambda>(ws, s). length s)")
  show "wf (measure (\<lambda>(ws, s). length s))" by simp
next
  fix ws :: "string list" and s w :: string
  assume "find (\<lambda>w. w \<noteq> [] \<and> startsWith s w) ws = Some w"
  then have "w \<noteq> []" and "startsWith s w"
    by (auto simp: find_Some_iff)
  with startsWith_length [of s w]
  show "((ws, drop (length w) s), (ws, s)) \<in> measure (\<lambda>(ws, s). length s)"
    by (cases w) auto
qed

declare strip_start.simps [simp del]

text \<open>
  \<open>trim\<close> removes the white space at both ends; the end is the start of the reversed
  bytes, where each white-space character shows as its reversed bytes.
\<close>

definition trim :: "string \<Rightarrow> string" where
  "trim s = rev (strip_start (map rev white_space) (rev (strip_start white_space s)))"

text \<open>
  \<open>split_at p s\<close> cuts \<open>s\<close> at the first occurrence of \<open>p\<close>: the text before it and the
  text after it.
\<close>

fun split_at :: "string \<Rightarrow> string \<Rightarrow> (string \<times> string) option" where
  "split_at p [] = (if p = [] then Some ([], []) else None)"
| "split_at p (c # cs) =
     (if startsWith (c # cs) p then Some ([], drop (length p) (c # cs))
      else map_option (\<lambda>(a, b). (c # a, b)) (split_at p cs))"

text \<open>
  \<open>match_tag opn cls s\<close> is the first match of the regular expression
  \<open>opn([\s\S]*?)cls\<close> in \<open>s\<close> for literal \<open>opn\<close> and \<open>cls\<close>: the match starts at
  the first \<open>opn\<close> and the lazy group ends at the first \<open>cls\<close> after it. The result is
  the captured group and the text after the match.
\<close>

definition match_tag :: "string \<Rightarrow> string \<Rightarrow> string \<Rightarrow> (string \<times> string) option" where
  "match_tag opn cls s =
     (case split_at opn s of
        None \<Rightarrow> None
      | Some (before, rest) \<Rightarrow> split_at cls rest)"

section \<open>services/externalSearchService.ts\<close>

definition search_keywords :: "string list" where
  "search_keywords = [''search online'', ''search the web'', ''look this up'', ''browse'',
     ''check internet'', ''latest'', ''today'', ''news'', ''price'', ''who is'',
     ''what is'', ''when did'']"

definition shouldUseExternalSearch :: "string \<Rightarrow> bool \<Rightarrow> bool \<Rightarrow> bool" where
  "shouldUseExternalSearch userMessage modelSupportsSearch hasSearchTag =
     (if modelSupportsSearch \<and> \<not> hasSearchTag then False
      else
        let lower = toLowerCase userMessage;
            keywordHit = list_ex (\<lambda>kw. includes_str lower kw) search_keywords
        in keywordHit \<or> hasSearchTag)"

text \<open>
  Values that the source throws. Every error object has a name, an optional numeric
  \<open>status\<close> and a message (empty when absent). \<open>ThrownTrue\<close> is the boolean
  \<open>true\<close>, which the agent loop throws.
\<close>

datatype js_error = JsError (err_name: string) (err_status: "nat option") (err_message: string)

datatype thrown = Exception js_error | ThrownTrue

fun show_nat :: "nat \<Rightarrow> string" where
  "show_nat n =
     (if n < 10 then [char_of (48 + n)] else show_nat (n div 10) @ [char_of (48 + n mod 10)])"

declare show_nat.simps [simp del]

text \<open>
  What \<open>fetch\<close> and \<open>resp.json()\<close> can do: \<open>fetch\<close> rejects, or resolves after some
  milliseconds with a status and a body; the body is JSON or it is not (then
  \<open>resp.json()\<close> rejects).
\<close>

datatype 'a body = NotJson | Json 'a

datatype 'a fetched = Rejected js_error | Response nat nat "'a body"

definition resp_ok :: "nat \<Rightarrow> bool" where
  "resp_ok status = (200 \<le> status \<and> status < 300)"

text \<open>A string property is truthy when it is present and not empty.\<close>

definition truthy :: "string option \<Rightarrow> bool" where
  "truthy v = (case v of None \<Rightarrow> False | Some s \<Rightarrow> s \<noteq> [])"

definition or_else :: "string option \<Rightarrow> string \<Rightarrow> string" where
  "or_else v d = (case v of None \<Rightarrow> d | Some s \<Rightarrow> if s = [] then d else s)"

record WebSearchResult =
  title :: string
  url :: string
  snippet :: "string option"
  content :: "string option"

text \<open>
  The primary provider's payload \<open>{success, results}\<close>. \<open>results\<close> is \<open>None\<close> when it
  is not an array; an element is \<open>None\<close> when it is \<open>null\<close>, so that reading its
  properties throws a TypeError.
\<close>

record raw_result =
  r_title :: "string option"
  r_url :: string
  r_snippet :: "string option"

record bubble_payload =
  success :: bool
  results :: "raw_result option list option"

definition type_error :: thrown where
  "type_error = Exception (JsError ''TypeError'' None [])"

fun map_results :: "raw_result option list \<Rightarrow> thrown + WebSearchResult list" where
  "map_results [] = Inr []"
| "map_results (None # rs) = Inl type_error"
| "map_results (Some r # rs) =
     (case map_results rs of
        Inl e \<Rightarrow> Inl e
      | Inr out \<Rightarrow>
          Inr (\<lparr>title = or_else (r_title r) ''Untitled Page'', url = r_url r,
                snippet = Some (or_else (r_snippet r) ''No description available.''),
                content = r_snippet r\<rparr> # out))"

text \<open>
  \<open>runBubbleSearch\<close>: the request is aborted when no response has arrived after 8000 ms;
  everything thrown inside the \<open>try\<close> is logged and thrown again.
\<close>

definition runBubbleSearch :: "bubble_payload fetched \<Rightarrow> thrown + WebSearchResult list" where
  "runBubbleSearch resp =
     (case resp of
        Rejected e \<Rightarrow> Inl (Exception e)
      | Response latency status b \<Rightarrow>
          if 8000 \<le> latency then Inl (Exception (JsError ''AbortError'' None []))
          else if \<not> resp_ok status then
            Inl (Exception (JsError ''Error'' None (''Bubble Search API Error: '' @ show_nat status)))
          else
            (case b of
               NotJson \<Rightarrow> Inl (Exception (JsError ''SyntaxError'' None []))
             | Json data \<Rightarrow>
                 if success data then
                   (case results data of Some rs \<Rightarrow> map_results rs | None \<Rightarrow> Inr [])
                 else Inr []))"

text \<open>The fallback provider's payload; a related topic is \<open>None\<close> when it is \<open>null\<close>.\<close>

record ddg_topic =
  FirstURL :: "string option"
  Text :: "string option"

record ddg_payload =
  AbstractURL :: "string option"
  Heading :: "string option"
  Abstract :: "string option"
  RelatedTopics :: "ddg_topic option list option"

definition first_piece :: "string \<Rightarrow> string" where
  "first_piece s = (case split_at '' - '' s of None \<Rightarrow> s | Some (a, b) \<Rightarrow> a)"

fun related_topics :: "ddg_topic option list \<Rightarrow> thrown + WebSearchResult list" where
  "related_topics [] = Inr []"
| "related_topics (None # ts) = Inl type_error"
| "related_topics (Some t # ts) =
     (case related_topics ts of
        Inl e \<Rightarrow> Inl e
      | Inr out \<Rightarrow>
          Inr (if truthy (FirstURL t) \<and> truthy (Text t) then
                 \<lparr>title = or_else (Some (first_piece (or_else (Text t) []))) ''Related Result'',
                  url = or_else (FirstURL t) [], snippet = Text t, content = Text t\<rparr> # out
               else out))"

text \<open>The body of the \<open>try\<close> block of \<open>runDuckDuckGoFallback\<close>.\<close>

definition duckduckgo_try :: "ddg_payload fetched \<Rightarrow> thrown + WebSearchResult list" where
  "duckduckgo_try resp =
     (case resp of
        Rejected e \<Rightarrow> Inl (Exception e)
      | Response latency status b \<Rightarrow>
          if \<not> resp_ok status then Inr []
          else
            (case b of
               NotJson \<Rightarrow> Inl (Exception (JsError ''SyntaxError'' None []))
             | Json data \<Rightarrow>
                 (let main =
                        (if truthy (AbstractURL data) \<and> truthy (Heading data) then
                           [\<lparr>title = or_else (Heading data) [], url = or_else (AbstractURL data) [],
                             snippet = Some (or_else (Abstract data) ''Result from DuckDuckGo''),
                             content = Abstract data\<rparr>]
                         else [])
                  in case RelatedTopics data of
                       None \<Rightarrow> Inr main
                     | Some ts \<Rightarrow>
                         (case related_topics (take 5 ts) of
                            Inl e \<Rightarrow> Inl e
                          | Inr related \<Rightarrow> Inr (main @ related)))))"

definition runDuckDuckGoFallback :: "ddg_payload fetched \<Rightarrow> thrown + WebSearchResult list" where
  "runDuckDuckGoFallback resp =
     (case duckduckgo_try resp of Inl e \<Rightarrow> Inr [] | Inr rs \<Rightarrow> Inr rs)"

text \<open>
  \<open>runWebSearch\<close> against the two providers' answers to this query. The result comes
  with the list of providers that were called.
\<close>

datatype provider_call = BubbleSearchCall | DuckDuckGoCall

record search_env =
  bubble_api :: "string \<Rightarrow> nat \<Rightarrow> bubble_payload fetched"
  duckduckgo_api :: "string \<Rightarrow> ddg_payload fetched"

definition runWebSearch ::
  "search_env \<Rightarrow> string \<Rightarrow> nat \<Rightarrow> provider_call list \<times> (thrown + WebSearchResult list)" where
  "runWebSearch env query limit =
     (case runBubbleSearch (bubble_api env query limit) of
        Inr rs \<Rightarrow> ([BubbleSearchCall], Inr rs)
      | Inl e \<Rightarrow>
          ([BubbleSearchCall, DuckDuckGoCall], runDuckDuckGoFallback (duckduckgo_api env query)))"

section \<open>The autonomous agent\<close>

subsection \<open>Input, collaborators and state\<close>

datatype RouterAction = SIMPLE | DEEP_SEARCH | IMAGE | PROJECT | CANVAS | STUDY

datatype thinking_mode = Instant | Fast | Think | Deep

text \<open>
  The fields of \<open>AgentInput\<close> that the control flow reads. \<open>Fast\<close> stands for every
  \<open>thinkingMode\<close> other than \<open>'instant'\<close>, \<open>'think'\<close> and \<open>'deep'\<close>; \<open>has_image\<close> says
  that one of the attached files is an image.
\<close>

record AgentInput =
  prompt :: string
  model :: "string option"
  thinkingMode :: thinking_mode
  openrouter_api_key :: "string option"
  preferred_deep_model :: "string option"
  is_admin :: bool
  has_image :: bool

text \<open>
  A provider's answer to one generation call: the call fails, or it yields a stream of
  text chunks, which may end by throwing.
\<close>

datatype stream_response = Fails js_error | Yields "string list" "js_error option"

text \<open>
  The collaborators of one run. \<open>abort_at = Some n\<close> says that the cancellation signal
  fires while the agent is suspended in its \<open>n\<close>-th \<open>await\<close> (\<open>Some 0\<close>: before the
  agent starts; \<open>None\<close>: never); the awaits counted are the memory fetch, the router, every
  provider call, every chunk read, every search, every back-off sleep and the canvas agent.
  Provider and search answers are indexed by the number of calls made before.
  \<open>webSearch\<close> is the list \<open>runWebSearch\<close> resolves to; \<open>getUserFriendlyError\<close> and
  \<open>stringify\<close> (\<open>JSON.stringify\<close> of the search results) are not part of the sources
  and are taken as they come.
\<close>

record agent_env =
  abort_at :: "nat option"
  getContext :: "thrown + string"
  route :: "thrown + RouterAction"
  generateFreeCompletion :: "thrown + string"
  generateContentStream :: "nat \<Rightarrow> string \<Rightarrow> stream_response"
  generateOpenRouterStream :: "nat \<Rightarrow> string \<Rightarrow> stream_response"
  webSearch :: "nat \<Rightarrow> string \<Rightarrow> WebSearchResult list"
  runCanvasAgent :: "string \<Rightarrow> thrown + string"
  getUserFriendlyError :: "thrown \<Rightarrow> string"
  stringify :: "WebSearchResult list \<Rightarrow> string"

text \<open>
  What a run does to the outside, in order. \<open>Iteration n\<close> marks the statement
  \<open>loopCount++\<close> that sets the counter to \<open>n\<close>; \<open>StreamChunk\<close> is a call of
  \<open>onStreamChunk\<close>; \<open>SignalAborted\<close> marks the moment the signal fires.
\<close>

datatype event =
    MemoryFetch
  | RouteCall string
  | FreeCompletion string
  | WebSearch string
  | Iteration nat
  | NativeCall string string
  | OpenRouterCall string string
  | Sleep nat
  | StreamChunk string
  | CanvasCall string
  | SignalAborted

record agent_state =
  awaits :: nat
  aborted :: bool
  trace :: "event list"
  native_calls :: nat
  openrouter_calls :: nat
  searches :: nat
  finalResponseText :: string
  generatedThisLoop :: string
  fallbackSearchContext :: string
  currentAction :: RouterAction
  currentPrompt :: string

definition emit :: "event \<Rightarrow> agent_state \<Rightarrow> agent_state" where
  "emit e st = st\<lparr>trace := trace st @ [e]\<rparr>"

definition await :: "agent_env \<Rightarrow> agent_state \<Rightarrow> agent_state" where
  "await env st =
     (let n = awaits st + 1 in
      if abort_at env = Some n then emit SignalAborted (st\<lparr>awaits := n, aborted := True\<rparr>)
      else st\<lparr>awaits := n\<rparr>)"

definition initial_state :: "agent_env \<Rightarrow> AgentInput \<Rightarrow> agent_state" where
  "initial_state env input =
     (let st = \<lparr>awaits = 0, aborted = False, trace = [], native_calls = 0, openrouter_calls = 0,
                searches = 0, finalResponseText = [], generatedThisLoop = [],
                fallbackSearchContext = [], currentAction = SIMPLE, currentPrompt = prompt input\<rparr>
      in if abort_at env = Some 0 then emit SignalAborted (st\<lparr>aborted := True\<rparr>) else st)"

definition nl :: string where
  "nl = [CHR 0x0A]"

definition dq :: string where
  "dq = [CHR 0x22]"

definition default_model :: string where
  "default_model = ''gemini-2.5-flash''"

subsection \<open>Model selection\<close>

definition isGoogleModel :: "string \<Rightarrow> bool" where
  "isGoogleModel m =
     (if m = [] then True
      else
        let lower = toLowerCase m
        in startsWith lower ''gemini'' \<or> startsWith lower ''veo'' \<or> includes_str lower ''google'')"

record model_choice =
  model_name :: string
  isNative :: bool
  thinkingBudget :: nat
  notices :: "string list"

text \<open>
  The statements between the instant-mode block and the \<open>try\<close> block: the default for a
  missing or blank model, the fallback for a compatible model without a key, and the
  thinking modes.
\<close>

definition default_blank_model :: "string option \<Rightarrow> string" where
  "default_blank_model m =
     (case m of None \<Rightarrow> default_model | Some s \<Rightarrow> if trim s = [] then default_model else s)"

definition choose_model :: "AgentInput \<Rightarrow> model_choice" where
  "choose_model input =
     (let model1 = default_blank_model (model input);
          native1 = isGoogleModel model1;
          missing_key = (\<not> native1 \<and> \<not> truthy (openrouter_api_key input));
          model2 = (if missing_key then default_model else model1);
          native2 = (if missing_key then True else native1);
          notices1 =
            (if missing_key then [nl @ ''*(OpenRouter key missing, falling back to Gemini...)*'' @ nl]
             else []);
          model3 =
            (case thinkingMode input of
               Deep \<Rightarrow> or_else (preferred_deep_model input) ''gemini-3-pro-preview''
             | Think \<Rightarrow> default_model
             | _ \<Rightarrow> model2);
          native3 =
            (case thinkingMode input of
               Deep \<Rightarrow> isGoogleModel model3
             | Think \<Rightarrow> True
             | _ \<Rightarrow> native2);
          budget = (case thinkingMode input of Deep \<Rightarrow> 8192 | Think \<Rightarrow> 2048 | _ \<Rightarrow> 0);
          switch = (0 < budget \<and> native3 \<and> \<not> includes_str model3 ''gemini-2.5''
                    \<and> \<not> includes_str model3 ''gemini-3'')
      in \<lparr>model_name = (if switch then default_model else model3), isNative = native3,
          thinkingBudget = budget,
          notices = notices1 @
            (if switch then
               [nl @ ''*(Switched to Gemini 2.5 Flash for Thinking mode compatibility)*'' @ nl]
             else [])\<rparr>)"

subsection \<open>generateContentStreamWithRetry\<close>

definition is_not_found :: "js_error \<Rightarrow> bool" where
  "is_not_found e =
     (err_status e = Some 404 \<or> err_status e = Some 400 \<or>
      (err_message e \<noteq> [] \<and>
       (includes_str (err_message e) ''404'' \<or> includes_str (err_message e) ''not found'' \<or>
        includes_str (err_message e) ''Requested entity was not found'')))"

definition isQuotaError :: "js_error \<Rightarrow> bool" where
  "isQuotaError e =
     (err_status e = Some 429 \<or>
      (err_message e \<noteq> [] \<and> includes_str (err_message e) ''429'') \<or>
      (err_message e \<noteq> [] \<and> includes_str (err_message e) ''quota''))"

definition backoff_delay :: "nat \<Rightarrow> nat" where
  "backoff_delay attempt = 2 ^ attempt * 2000 + 1000"

definition unavailable_notice :: "string \<Rightarrow> string" where
  "unavailable_notice m = ''(Model '' @ m @ '' unavailable. Falling back to Gemini 2.5 Flash...)''"

definition rate_limit_notice :: "nat \<Rightarrow> string" where
  "rate_limit_notice delay =
     ''(Rate limit hit. Retrying in '' @ show_nat ((delay + 500) div 1000) @ ''s...)''"

text \<open>
  The \<open>for\<close> loop over \<open>attempt\<close>, for the request with this prompt. \<open>m\<close> is
  \<open>params.model\<close>. Every notice goes to \<open>onRetry\<close>, which the agent binds to
  \<open>onStreamChunk\<close>.
\<close>

function retry_loop ::
  "agent_env \<Rightarrow> string \<Rightarrow> nat \<Rightarrow> nat \<Rightarrow> string \<Rightarrow> agent_state
   \<Rightarrow> (thrown + string list \<times> js_error option) \<times> agent_state" where
  "retry_loop env p retries attempt m st =
     (if attempt \<le> retries then
        let st1 = await env ((emit (NativeCall m p) st)\<lparr>native_calls := native_calls st + 1\<rparr>)
        in case generateContentStream env (native_calls st) m of
             Yields chunks err \<Rightarrow> (Inr (chunks, err), st1)
           | Fails e \<Rightarrow>
               if is_not_found e then
                 let st2 = emit (StreamChunk (unavailable_notice m)) st1
                 in if m = ''gemini-2.5-flash'' then (Inl (Exception e), st2)
                    else retry_loop env p retries (attempt + 1) ''gemini-2.5-flash'' st2
               else if isQuotaError e \<and> attempt < retries then
                 let delay = backoff_delay attempt;
                     st2 = emit (StreamChunk (rate_limit_notice delay)) st1;
                     st3 = await env (emit (Sleep delay) st2)
                 in retry_loop env p retries (attempt + 1) m st3
               else (Inl (Exception e), st1)
      else (Inl (Exception (JsError ''Error'' None ''Max retries exceeded'')), st))"
  by pat_completeness auto
termination
  by (relation "measure (\<lambda>(env, p, retries, attempt, m, st). retries + 1 - attempt)") auto

declare retry_loop.simps [simp del]

definition generateContentStreamWithRetry ::
  "agent_env \<Rightarrow> string option \<Rightarrow> string \<Rightarrow> nat \<Rightarrow> agent_state
   \<Rightarrow> (thrown + string list \<times> js_error option) \<times> agent_state" where
  "generateContentStreamWithRetry env m p retries st =
     retry_loop env p retries 0 (or_else m ''gemini-2.5-flash'') st"

subsection \<open>One generation\<close>

definition canvas_closed :: "string \<Rightarrow> bool" where
  "canvas_closed g =
     (includes_str g ''</CANVAS_TRIGGER>'' \<or> includes_str g ''</CANVASTRIGGER>'' \<or>
      includes_str g ''</CANVAS>'')"

definition append_chunk :: "string \<Rightarrow> agent_state \<Rightarrow> agent_state" where
  "append_chunk c st =
     emit (StreamChunk c)
       (st\<lparr>generatedThisLoop := generatedThisLoop st @ c,
           finalResponseText := finalResponseText st @ c\<rparr>)"

text \<open>
  The \<open>for await\<close> loop over the native provider's stream. Reading a chunk suspends the
  agent; the signal is looked at after every chunk read. The result is what the loop
  throws, if anything.
\<close>

fun stream_native ::
  "agent_env \<Rightarrow> string list \<Rightarrow> js_error option \<Rightarrow> agent_state
   \<Rightarrow> thrown option \<times> agent_state" where
  "stream_native env [] err st = (map_option Exception err, await env st)"
| "stream_native env (c # cs) err st =
     (let st1 = await env st
      in if aborted st1 then (None, st1)
         else if c = [] then stream_native env cs err st1
         else
           let st2 = append_chunk c st1
           in if canvas_closed (generatedThisLoop st2) then (None, st2)
              else stream_native env cs err st2)"

definition abort_error :: thrown where
  "abort_error = Exception (JsError ''AbortError'' None [])"

text \<open>
  \<open>generateOpenRouterStream\<close>, as the sequence of calls of its \<open>onChunk\<close> callback. The
  request carries the signal: once the signal has fired, the pending \<open>fetch\<close> or
  \<open>reader.read()\<close> rejects with an \<open>AbortError\<close>.
\<close>

fun stream_openrouter ::
  "agent_env \<Rightarrow> string list \<Rightarrow> js_error option \<Rightarrow> agent_state
   \<Rightarrow> thrown option \<times> agent_state" where
  "stream_openrouter env [] err st =
     (let st1 = await env st
      in if aborted st1 then (Some abort_error, st1) else (map_option Exception err, st1))"
| "stream_openrouter env (c # cs) err st =
     (let st1 = await env st
      in if aborted st1 then (Some abort_error, st1)
         else stream_openrouter env cs err (if c = [] then st1 else append_chunk c st1))"

definition supports_vision :: "string \<Rightarrow> bool" where
  "supports_vision m =
     (let lower = toLowerCase m
      in includes_str lower ''vision'' \<or> includes_str lower ''gemini'' \<or>
         includes_str lower ''claude'' \<or> includes_str lower ''gpt-4'')"

text \<open>
  The inner \<open>try\<close> block of an iteration: the generation call and its stream. The result
  is the \<open>primaryError\<close> caught, if any. The system instruction, the history and the
  attached files travel with the request and do not steer the loop.
\<close>

definition generate ::
  "agent_env \<Rightarrow> AgentInput \<Rightarrow> model_choice \<Rightarrow> agent_state \<Rightarrow> thrown option \<times> agent_state" where
  "generate env input mc st0 =
     (let st = st0\<lparr>generatedThisLoop := []\<rparr>
      in if isNative mc then
           (case generateContentStreamWithRetry env (Some (model_name mc)) (currentPrompt st) 3 st of
              (Inl e, st1) \<Rightarrow> (Some e, st1)
            | (Inr (chunks, err), st1) \<Rightarrow> stream_native env chunks err st1)
         else if \<not> truthy (openrouter_api_key input) then
           (Some (Exception (JsError ''Error'' None ''OpenRouter API Key not found.'')), st)
         else if has_image input \<and> \<not> supports_vision (model_name mc) then
           (Some (Exception (JsError ''Error'' None
              ''The selected model does not support image inputs. Please switch to a vision-capable model like Gemini Pro or Claude Sonnet.'')),
            st)
         else
           let st1 = await env ((emit (OpenRouterCall (model_name mc) (currentPrompt st)) st)
                                  \<lparr>openrouter_calls := openrouter_calls st + 1\<rparr>)
           in if aborted st1 then (Some abort_error, st1)
              else
                (case generateOpenRouterStream env (openrouter_calls st) (model_name mc) of
                   Fails e \<Rightarrow> (Some (Exception e), st1)
                 | Yields chunks err \<Rightarrow> stream_openrouter env chunks err st1))"

subsection \<open>Tags\<close>

lemma split_at_length:
  "split_at p s = Some (a, b) \<Longrightarrow> length a + length p + length b = length s"
proof (induction s arbitrary: a b)
  case Nil
  then show ?case by (simp split: if_splits)
next
  case (Cons c cs)
  show ?case
  proof (cases "startsWith (c # cs) p")
    case True
    with startsWith_length [of "c # cs" p] Cons.prems show ?thesis by auto
  next
    case False
    with Cons.prems obtain a' where "split_at p cs = Some (a', b)" and "a = c # a'"
      by auto
    with Cons.IH show ?thesis by fastforce
  qed
qed

text \<open>
  Every match of \<open>/<SEARCH>([\s\S]*?)<\/SEARCH>/g\<close>, as the list of the captured
  groups: \<open>matchAll\<close> resumes after the end of each match.
\<close>

function searchMatches :: "string \<Rightarrow> string list" where
  "searchMatches s =
     (case match_tag ''<SEARCH>'' ''</SEARCH>'' s of
        None \<Rightarrow> []
      | Some (q, rest) \<Rightarrow> q # searchMatches rest)"
  by pat_completeness auto
termination searchMatches
proof (relation "measure length")
  show "wf (measure length)" by simp
next
  fix s :: string and x2 q rest
  assume "match_tag ''<SEARCH>'' ''</SEARCH>'' s = Some x2" and "(q, rest) = x2"
  then obtain before mid where 1: "split_at ''<SEARCH>'' s = Some (before, mid)"
    and 2: "split_at ''</SEARCH>'' mid = Some (q, rest)"
    by (auto simp: match_tag_def split: option.splits)
  from split_at_length [OF 1] split_at_length [OF 2]
  show "(rest, s) \<in> measure length" by simp
qed

declare searchMatches.simps [simp del]

text \<open>
  \<open>m && m[1]\<close> for the result \<open>m\<close> of \<open>String.match\<close>: the captured group, when there
  is a match and the group is not empty.
\<close>

definition group1 :: "(string \<times> string) option \<Rightarrow> string option" where
  "group1 m = (case m of None \<Rightarrow> None | Some (c, rest) \<Rightarrow> if c = [] then None else Some c)"

definition first_match ::
  "(string \<times> string) option \<Rightarrow> (string \<times> string) option \<Rightarrow> (string \<times> string) option" where
  "first_match a b = (case a of None \<Rightarrow> b | Some m \<Rightarrow> Some m)"

definition canvasMatch :: "string \<Rightarrow> (string \<times> string) option" where
  "canvasMatch g =
     first_match (match_tag ''<CANVAS_TRIGGER>'' ''</CANVAS_TRIGGER>'' g)
       (first_match (match_tag ''<CANVAS_TRIGGER>'' ''</CANVASTRIGGER>'' g)
          (first_match (match_tag ''<CANVAS>'' ''</CANVAS>'' g)
             (match_tag ''<CANVASTRIGGER>'' ''</CANVASTRIGGER>'' g)))"

subsection \<open>The action loop\<close>

definition MAX_LOOPS :: nat where
  "MAX_LOOPS = 6"

text \<open>
  The \<open>return\<close> statement a run leaves through: the instant-mode block, the end of an
  iteration, the statement after the loop, the canvas hand-off, or one of the two
  branches of the outer \<open>catch\<close>.
\<close>

datatype exit_point =
  InstantReturn | LoopReturn | LoopExit | CanvasReturn | AbortCaught | ErrorCaught

record outcome =
  exit_point :: exit_point
  out_text :: string

datatype step = Continue | Break | Return outcome | Throw thrown

definition modelSupportsSearch :: "model_choice \<Rightarrow> bool" where
  "modelSupportsSearch mc = (isNative mc \<or> includes_str (model_name mc) ''perplexity'')"

definition undefined_or :: "string option \<Rightarrow> string" where
  "undefined_or v = (case v of None \<Rightarrow> ''undefined'' | Some s \<Rightarrow> s)"

definition aggregatedContext :: "WebSearchResult list \<Rightarrow> string" where
  "aggregatedContext rs = concat (map (\<lambda>res. title res @ '': '' @ undefined_or (snippet res) @ nl) rs)"

definition synthesis_prompt :: "string \<Rightarrow> string \<Rightarrow> string \<Rightarrow> string" where
  "synthesis_prompt p query ctx =
     ''USER ORIGINALLY ASKED: '' @ p @ nl @ nl @
     ''I have performed the following searches based on my previous thought process:'' @ nl @
     ''- '' @ query @ nl @ nl @ ''SEARCH CONTEXT:'' @ nl @ ctx @ nl @ nl @
     ''INSTRUCTIONS: Synthesize a comprehensive answer to the user'' @ [CHR 0x27] @
     ''s original query using this search data. Cite sources using [1], [2] format. Do NOT repeat the <SEARCH> tags.''"

definition no_results_context :: "string \<Rightarrow> string" where
  "no_results_context query =
     ''[System: Search executed for '' @ dq @ query @ dq @
     '' but returned no results. Continue with internal knowledge.]''"

definition no_results_prompt :: "string \<Rightarrow> string \<Rightarrow> string" where
  "no_results_prompt p query =
     ''USER ORIGINALLY ASKED: '' @ p @ nl @ nl @
     ''I attempted to search for: '' @ dq @ query @ dq @ '' but found no results.'' @ nl @ nl @
     ''INSTRUCTIONS: Continue answering the user'' @ [CHR 0x27] @
     ''s request using your internal knowledge. Do NOT repeat the <SEARCH> tags.''"

text \<open>The reactive search for the first query of an iteration; the loop continues after it.\<close>

definition reactive_search :: "agent_env \<Rightarrow> AgentInput \<Rightarrow> string \<Rightarrow> agent_state \<Rightarrow> agent_state" where
  "reactive_search env input query st =
     (let st1 = await env ((emit (WebSearch query) st)\<lparr>searches := searches st + 1\<rparr>);
          searchResults = webSearch env (searches st) query
      in if searchResults \<noteq> [] then
           st1\<lparr>fallbackSearchContext := aggregatedContext searchResults,
               currentPrompt := synthesis_prompt (prompt input) query (aggregatedContext searchResults),
               currentAction := SIMPLE\<rparr>
         else
           st1\<lparr>fallbackSearchContext := no_results_context query,
               currentPrompt := no_results_prompt (prompt input) query,
               currentAction := SIMPLE\<rparr>)"

text \<open>
  The tags other than the search with a query, in the order of the source. The parameters
  that the image branch stores in \<open>routing\<close> are read by nobody and are left out.
\<close>

definition dispatch_tags :: "agent_env \<Rightarrow> agent_state \<Rightarrow> step \<times> agent_state" where
  "dispatch_tags env st =
     (let g = generatedThisLoop st in
      case group1 (match_tag ''<DEEP>'' ''</DEEP>'' g) of
        Some d \<Rightarrow> (Continue, st\<lparr>currentAction := DEEP_SEARCH, currentPrompt := d\<rparr>)
      | None \<Rightarrow>
          if length (searchMatches g) = 1 \<and> fallbackSearchContext st = [] then (Break, st)
          else
            (case group1 (match_tag ''<IMAGE>'' ''</IMAGE>'' g) of
               Some i \<Rightarrow> (Continue, st\<lparr>currentAction := IMAGE, currentPrompt := i\<rparr>)
             | None \<Rightarrow>
                 (case group1 (match_tag ''<PROJECT>'' ''</PROJECT>'' g) of
                    Some pr \<Rightarrow> (Continue, st\<lparr>currentAction := PROJECT, currentPrompt := pr\<rparr>)
                  | None \<Rightarrow>
                      (case group1 (canvasMatch g) of
                         Some c \<Rightarrow>
                           (let st1 = st\<lparr>finalResponseText := [], currentAction := CANVAS,
                                         currentPrompt := trim c\<rparr>;
                                st2 = await env (emit (CanvasCall (trim c)) st1)
                            in case runCanvasAgent env (trim c) of
                                 Inl e \<Rightarrow> (Throw e, st2)
                               | Inr r \<Rightarrow> (Return \<lparr>exit_point = CanvasReturn, out_text = r\<rparr>, st2))
                       | None \<Rightarrow>
                           (case group1 (match_tag ''<STUDY>'' ''</STUDY>'' g) of
                              Some sp \<Rightarrow> (Continue, st\<lparr>currentAction := STUDY, currentPrompt := sp\<rparr>)
                            | None \<Rightarrow>
                                (let st1 =
                                       (if trim (finalResponseText st) = [] \<and>
                                           fallbackSearchContext st \<noteq> []
                                        then emit (StreamChunk (fallbackSearchContext st))
                                               (st\<lparr>finalResponseText := fallbackSearchContext st\<rparr>)
                                        else st)
                                 in (Return \<lparr>exit_point = LoopReturn,
                                             out_text = finalResponseText st1\<rparr>, st1)))))))"

text \<open>What an iteration does once its generation has completed without an error.\<close>

definition after_generation ::
  "agent_env \<Rightarrow> AgentInput \<Rightarrow> model_choice \<Rightarrow> agent_state \<Rightarrow> step \<times> agent_state" where
  "after_generation env input mc st =
     (case filter (\<lambda>q. q \<noteq> []) (map trim (searchMatches (generatedThisLoop st))) of
        query # others \<Rightarrow>
          if shouldUseExternalSearch query (modelSupportsSearch mc) True
          then (Continue, reactive_search env input query st)
          else dispatch_tags env st
      | [] \<Rightarrow> dispatch_tags env st)"

text \<open>
  The body of the \<open>while\<close> loop after \<open>loopCount++\<close>: the \<open>switch\<close>, whose one branch
  serves every action. Whatever the generation throws is replaced by the flag
  \<open>primaryGenerationFailed\<close>, and the flag (the boolean \<open>true\<close>) is thrown. The
  result \<open>Break\<close> is the \<open>break\<close> of the single-search-tag test, \<open>Continue\<close> a
  \<open>continue\<close>.
\<close>

definition iteration ::
  "agent_env \<Rightarrow> AgentInput \<Rightarrow> model_choice \<Rightarrow> agent_state \<Rightarrow> step \<times> agent_state" where
  "iteration env input mc st =
     (case generate env input mc st of
        (Some primaryError, st1) \<Rightarrow> (Throw ThrownTrue, st1)
      | (None, st1) \<Rightarrow> after_generation env input mc st1)"

text \<open>
  The \<open>while\<close> loop. The test of the signal before \<open>loopCount++\<close> leaves the loop. The
  \<open>break\<close> of an iteration stands inside the \<open>switch\<close> and leaves the \<open>switch\<close> only:
  nothing follows the \<open>switch\<close> in the body of the loop, so the loop tests its condition
  again, as it does after a \<open>continue\<close>.
\<close>

function agent_loop ::
  "agent_env \<Rightarrow> AgentInput \<Rightarrow> model_choice \<Rightarrow> nat \<Rightarrow> agent_state
   \<Rightarrow> (thrown + outcome) \<times> agent_state" where
  "agent_loop env input mc loopCount st =
     (if loopCount < MAX_LOOPS then
        if aborted st then (Inr \<lparr>exit_point = LoopExit, out_text = finalResponseText st\<rparr>, st)
        else
          (case iteration env input mc (emit (Iteration (loopCount + 1)) st) of
             (Continue, st1) \<Rightarrow> agent_loop env input mc (loopCount + 1) st1
           | (Break, st1) \<Rightarrow> agent_loop env input mc (loopCount + 1) st1
           | (Return out, st1) \<Rightarrow> (Inr out, st1)
           | (Throw e, st1) \<Rightarrow> (Inl e, st1))
      else (Inr \<lparr>exit_point = LoopExit, out_text = finalResponseText st\<rparr>, st))"
  by pat_completeness auto
termination
  by (relation "measure (\<lambda>(env, input, mc, loopCount, st). MAX_LOOPS - loopCount)") auto

declare agent_loop.simps [simp del]

subsection \<open>runAutonomousAgent\<close>

text \<open>
  \<open>memoryContextString\<close> is the empty string or the result of \<open>JSON.stringify\<close>;
  \<open>JSON.parse\<close> gives the value back for the latter and throws a SyntaxError for the
  empty string.
\<close>

datatype json_text = EmptyText | StringifyOf string

definition JSON_parse :: "json_text \<Rightarrow> thrown + string" where
  "JSON_parse t =
     (case t of
        EmptyText \<Rightarrow> Inl (Exception (JsError ''SyntaxError'' None ''Unexpected end of JSON input''))
      | StringifyOf v \<Rightarrow> Inr v)"

definition search_tag :: "string \<Rightarrow> string" where
  "search_tag p = ''<SEARCH>'' @ p @ ''</SEARCH>''"

definition debugOutput :: "agent_env \<Rightarrow> string \<Rightarrow> WebSearchResult list \<Rightarrow> string" where
  "debugOutput env p rs =
     nl @ nl @ ''```json'' @ nl @ ''[ADMIN DEBUG: SEARCH]'' @ nl @ ''Query: '' @ dq @ p @ dq @ nl @
     ''Results: '' @ show_nat (length rs) @ nl @ ''Data: '' @ stringify env rs @ nl @ ''```'' @
     nl @ nl"

text \<open>
  The search before the first iteration. Its results go into the system instruction
  and the grounding metadata, which do not steer the loop.
\<close>

definition preemptive_search :: "agent_env \<Rightarrow> AgentInput \<Rightarrow> agent_state \<Rightarrow> agent_state" where
  "preemptive_search env input st =
     (let st1 = (emit (StreamChunk (search_tag (prompt input))) st)
                  \<lparr>finalResponseText := finalResponseText st @ search_tag (prompt input)\<rparr>;
          st2 = await env ((emit (WebSearch (prompt input)) st1)\<lparr>searches := searches st1 + 1\<rparr>);
          searchResults = webSearch env (searches st1) (prompt input)
      in if is_admin input then
           (emit (StreamChunk (debugOutput env (prompt input) searchResults)) st2)
             \<lparr>finalResponseText :=
                finalResponseText st2 @ debugOutput env (prompt input) searchResults\<rparr>
         else st2)"

definition try_block ::
  "agent_env \<Rightarrow> AgentInput \<Rightarrow> model_choice \<Rightarrow> json_text \<Rightarrow> agent_state
   \<Rightarrow> (thrown + outcome) \<times> agent_state" where
  "try_block env input mc memoryContextString st =
     (let st1 = await env (emit (RouteCall (prompt input)) st)
      in case route env of
           Inl e \<Rightarrow> (Inl e, st1)
         | Inr action \<Rightarrow>
             (let st2 =
                    (if shouldUseExternalSearch (prompt input) (modelSupportsSearch mc) False
                     then preemptive_search env input st1 else st1)
              in case JSON_parse memoryContextString of
                   Inl e \<Rightarrow> (Inl e, st2)
                 | Inr memoryObject \<Rightarrow>
                     agent_loop env input mc 0
                       (st2\<lparr>currentAction := action, currentPrompt := prompt input\<rparr>)))"

definition warning_sign :: string where
  "warning_sign = [CHR 0xE2, CHR 0x9A, CHR 0xA0, CHR 0xEF, CHR 0xB8, CHR 0x8F, CHR 0x20]"

definition is_abort_error :: "thrown \<Rightarrow> bool" where
  "is_abort_error e = (case e of Exception err \<Rightarrow> err_name err = ''AbortError'' | ThrownTrue \<Rightarrow> False)"

definition catch_block :: "agent_env \<Rightarrow> thrown \<Rightarrow> agent_state \<Rightarrow> outcome" where
  "catch_block env e st =
     (if is_abort_error e then
        \<lparr>exit_point = AbortCaught,
         out_text = (if finalResponseText st = [] then ''(Generation stopped by user)''
                 else finalResponseText st)\<rparr>
      else \<lparr>exit_point = ErrorCaught, out_text = warning_sign @ getUserFriendlyError env e\<rparr>)"

definition runAutonomousAgent ::
  "agent_env \<Rightarrow> AgentInput \<Rightarrow> (thrown + outcome) \<times> agent_state" where
  "runAutonomousAgent env input =
     (let st0 = await env (emit MemoryFetch (initial_state env input));
          memoryContextString =
            (case getContext env of Inl e \<Rightarrow> EmptyText | Inr c \<Rightarrow> StringifyOf c)
      in if thinkingMode input = Instant then
           (let st1 = await env (emit (FreeCompletion (prompt input)) st0)
            in case generateFreeCompletion env of
                 Inl e \<Rightarrow>
                   (Inl (Exception (JsError ''Error'' None ''Instant mode service unavailable.'')), st1)
               | Inr t \<Rightarrow> (Inr \<lparr>exit_point = InstantReturn, out_text = t\<rparr>, st1))
         else
           (let mc = choose_model input;
                st1 = fold (\<lambda>n. emit (StreamChunk n)) (notices mc) st0
            in case try_block env input mc memoryContextString st1 of
                 (Inl e, st2) \<Rightarrow> (Inr (catch_block env e st2), st2)
               | (Inr out, st2) \<Rightarrow> (Inr out, st2)))"

subsection \<open>Reading a trace\<close>

fun iteration_numbers :: "event list \<Rightarrow> nat list" where
  "iteration_numbers [] = []"
| "iteration_numbers (Iteration n # es) = n # iteration_numbers es"
| "iteration_numbers (e # es) = iteration_numbers es"

fun sleeps :: "event list \<Rightarrow> nat list" where
  "sleeps [] = []"
| "sleeps (Sleep d # es) = d # sleeps es"
| "sleeps (e # es) = sleeps es"

fun canvas_calls :: "event list \<Rightarrow> string list" where
  "canvas_calls [] = []"
| "canvas_calls (CanvasCall p # es) = p # canvas_calls es"
| "canvas_calls (e # es) = canvas_calls es"

text \<open>The models that the provider calls of a trace were made with.\<close>

fun called_models :: "event list \<Rightarrow> string list" where
  "called_models [] = []"
| "called_models (NativeCall m p # es) = m # called_models es"
| "called_models (e # es) = called_models es"

text \<open>
  An event that is not a provider call, or that is a call of the native provider with
  the model \<open>gemini-2.5-flash\<close>.
\<close>

fun uses_default_native :: "event \<Rightarrow> bool" where
  "uses_default_native (NativeCall m p) = (m = ''gemini-2.5-flash'')"
| "uses_default_native (OpenRouterCall m p) = False"
| "uses_default_native (FreeCompletion p) = False"
| "uses_default_native e = True"

section \<open>The session guard of handleSendMessage\<close>

text \<open>
  The part of \<open>handleSendMessage\<close> that guards one send: the flag \<open>isSendingRef\<close>, the
  abort controller of the send, and the safety timer. Time is in milliseconds. The timer
  is \<open>Some d\<close> while it is pending with deadline \<open>d\<close>.
\<close>

datatype ai_status = Idle | Thinking | Failed

record guard =
  isSendingRef :: bool
  signal_aborted :: bool
  safetyTimeout :: "nat option"
  isMountedRef :: bool
  aiStatus :: ai_status
  toasts :: "(string \<times> string) list"

text \<open>
  The start of a send at time \<open>now\<close>, up to the installation of the timer; \<open>valid\<close> is
  the outcome of the checks on the text, the user and the chat.
\<close>

definition send_start :: "nat \<Rightarrow> bool \<Rightarrow> guard \<Rightarrow> guard" where
  "send_start now valid g =
     (if \<not> valid then g
      else if isSendingRef g then g
      else g\<lparr>isSendingRef := True, aiStatus := Thinking, signal_aborted := False,
             safetyTimeout := Some (now + 300000)\<rparr>)"

text \<open>The callback of the timer.\<close>

definition timeout_callback :: "guard \<Rightarrow> guard" where
  "timeout_callback g =
     (if isSendingRef g \<and> \<not> signal_aborted g then
        (let g1 = g\<lparr>signal_aborted := True, isSendingRef := False\<rparr>;
             g2 = (if isMountedRef g1 then g1\<lparr>aiStatus := Failed\<rparr> else g1)
         in g2\<lparr>toasts := toasts g2 @
                  [(''Response timed out. The operation took too long.'', ''error'')]\<rparr>)
      else g)"

text \<open>Time passes until \<open>now\<close>: a pending timer whose deadline has come runs its callback.\<close>

definition time_passes :: "nat \<Rightarrow> guard \<Rightarrow> guard" where
  "time_passes now g =
     (case safetyTimeout g of
        None \<Rightarrow> g
      | Some d \<Rightarrow> if d \<le> now then timeout_callback (g\<lparr>safetyTimeout := None\<rparr>) else g)"

text \<open>The first statements of \<open>onStreamChunk\<close>.\<close>

definition onStreamChunk :: "guard \<Rightarrow> guard" where
  "onStreamChunk g = (if signal_aborted g then g else g\<lparr>safetyTimeout := None\<rparr>)"

text \<open>The \<open>finally\<close> block, which runs when the agent has completed.\<close>

definition send_finally :: "guard \<Rightarrow> guard" where
  "send_finally g = g\<lparr>safetyTimeout := None, isSendingRef := False\<rparr>"

definition idle_guard :: guard where
  "idle_guard = \<lparr>isSendingRef = False, signal_aborted = False, safetyTimeout = None,
     isMountedRef = True, aiStatus = Idle, toasts = []\<rparr>"

section \<open>Failures of the search providers\<close>

text \<open>
  The failures of the primary provider that the service names: no response within the
  time limit (or a rejected request), a status outside 2xx, a body that is not JSON.
\<close>

definition primary_failure :: "bubble_payload fetched \<Rightarrow> bool" where
  "primary_failure r =
     (case r of
        Rejected e \<Rightarrow> True
      | Response latency status b \<Rightarrow> 8000 \<le> latency \<or> \<not> resp_ok status \<or> b = NotJson)"

definition fallback_failure :: "ddg_payload fetched \<Rightarrow> bool" where
  "fallback_failure r =
     (case r of
        Rejected e \<Rightarrow> True
      | Response latency status b \<Rightarrow> \<not> resp_ok status \<or> b = NotJson)"

section \<open>Example runs\<close>

definition both_down :: search_env where
  "both_down =
     \<lparr>bubble_api = (\<lambda>q l. Response 8000 200 NotJson),
      duckduckgo_api = (\<lambda>q. Rejected (JsError ''TypeError'' None ''Failed to fetch''))\<rparr>"

text \<open>
  The primary provider answers in time with status 200 and a payload whose \<open>results\<close>
  is not an array.
\<close>

definition malformed_results :: search_env where
  "malformed_results =
     \<lparr>bubble_api = (\<lambda>q l. Response 120 200 (Json \<lparr>success = True, results = None\<rparr>)),
      duckduckgo_api = (\<lambda>q. Response 80 200 (Json
         \<lparr>AbstractURL = Some ''https://en.wikipedia.org/wiki/Cat'', Heading = Some ''Cat'',
          Abstract = Some ''The cat is a small domesticated carnivorous mammal.'',
          RelatedTopics = None\<rparr>))\<rparr>"

definition always_rate_limited :: agent_env where
  "always_rate_limited =
     \<lparr>abort_at = None, getContext = Inr ''{}'', route = Inr SIMPLE,
      generateFreeCompletion = Inr ''hi'',
      generateContentStream = (\<lambda>n m. Fails (JsError ''ApiError'' (Some 429) ''Resource exhausted'')),
      generateOpenRouterStream = (\<lambda>n m. Yields [] None),
      webSearch = (\<lambda>n q. []), runCanvasAgent = (\<lambda>p. Inr ''canvas''),
      getUserFriendlyError = (\<lambda>e. ''Something went wrong.''), stringify = (\<lambda>r. ''[]'')\<rparr>"

text \<open>A model that asks for deeper reasoning in every answer.\<close>

definition always_deep :: agent_env where
  "always_deep =
     \<lparr>abort_at = None, getContext = Inr ''{}'', route = Inr SIMPLE,
      generateFreeCompletion = Inr ''hi'',
      generateContentStream = (\<lambda>n m. Yields [''<DEEP>think harder</DEEP>''] None),
      generateOpenRouterStream = (\<lambda>n m. Yields [] None),
      webSearch = (\<lambda>n q. []), runCanvasAgent = (\<lambda>p. Inr ''canvas''),
      getUserFriendlyError = (\<lambda>e. ''Something went wrong.''), stringify = (\<lambda>r. ''[]'')\<rparr>"

definition hello :: AgentInput where
  "hello =
     \<lparr>prompt = ''hello'', model = Some ''gemini-2.5-flash'', thinkingMode = Fast,
      openrouter_api_key = None, preferred_deep_model = None, is_admin = False,
      has_image = False\<rparr>"

text \<open>The memory fetch fails; everything else works.\<close>

definition memory_down :: agent_env where
  "memory_down =
     \<lparr>abort_at = None,
      getContext = Inl (Exception (JsError ''Error'' None ''Failed to fetch'')),
      route = Inr SIMPLE, generateFreeCompletion = Inr ''hi'',
      generateContentStream = (\<lambda>n m. Yields [''Hello! How can I help?''] None),
      generateOpenRouterStream = (\<lambda>n m. Yields [] None),
      webSearch = (\<lambda>n q. []), runCanvasAgent = (\<lambda>p. Inr ''canvas''),
      getUserFriendlyError = (\<lambda>e. ''Something went wrong.''), stringify = (\<lambda>r. ''[]'')\<rparr>"

text \<open>
  The user cancels while the agent waits for the second chunk: the fifth await, after the
  memory fetch, the router, the provider call and the first chunk.
\<close>

definition cancelled_mid_stream :: agent_env where
  "cancelled_mid_stream =
     \<lparr>abort_at = Some 5, getContext = Inr ''{}'', route = Inr SIMPLE,
      generateFreeCompletion = Inr ''hi'',
      generateContentStream = (\<lambda>n m. Yields [''<SEARCH>cats</SEARCH>'', ''Let me check.''] None),
      generateOpenRouterStream = (\<lambda>n m. Yields [''Hello'', '' there''] None),
      webSearch = (\<lambda>n q. []), runCanvasAgent = (\<lambda>p. Inr ''canvas''),
      getUserFriendlyError = (\<lambda>e. ''Something went wrong.''), stringify = (\<lambda>r. ''[]'')\<rparr>"

definition about_cats :: AgentInput where
  "about_cats =
     \<lparr>prompt = ''tell me about cats'', model = Some ''gemini-2.5-flash'', thinkingMode = Fast,
      openrouter_api_key = None, preferred_deep_model = None, is_admin = False,
      has_image = False\<rparr>"

definition about_cats_openrouter :: AgentInput where
  "about_cats_openrouter =
     \<lparr>prompt = ''tell me about cats'', model = Some ''openai/gpt-4o'', thinkingMode = Fast,
      openrouter_api_key = Some ''sk-or-key'', preferred_deep_model = None, is_admin = False,
      has_image = False\<rparr>"

definition blank_deep :: AgentInput where
  "blank_deep =
     \<lparr>prompt = ''hello'', model = Some ''   '', thinkingMode = Deep,
      openrouter_api_key = None, preferred_deep_model = None, is_admin = False,
      has_image = False\<rparr>"

definition blank_instant :: AgentInput where
  "blank_instant =
     \<lparr>prompt = ''hello'', model = Some ''   '', thinkingMode = Instant,
      openrouter_api_key = None, preferred_deep_model = None, is_admin = False,
      has_image = False\<rparr>"

text \<open>The model string is a space, a no-break space U+00A0 and a line separator U+2028.\<close>

definition blank_fast :: AgentInput where
  "blank_fast =
     \<lparr>prompt = ''hello'',
      model = Some [CHR 0x20, CHR 0xC2, CHR 0xA0, CHR 0xE2, CHR 0x80, CHR 0xA8],
      thinkingMode = Fast,
      openrouter_api_key = None, preferred_deep_model = None, is_admin = False,
      has_image = False\<rparr>"

definition greeting :: agent_env where
  "greeting =
     \<lparr>abort_at = None, getContext = Inr ''{}'', route = Inr SIMPLE,
      generateFreeCompletion = Inr ''hi'',
      generateContentStream = (\<lambda>n m. Yields [''Hello! '', ''How can I help?''] None),
      generateOpenRouterStream = (\<lambda>n m. Yields [''Hello!''] None),
      webSearch = (\<lambda>n q. []), runCanvasAgent = (\<lambda>p. Inr ''canvas''),
      getUserFriendlyError = (\<lambda>e. ''Something went wrong.''), stringify = (\<lambda>r. ''[]'')\<rparr>"

text \<open>The first answer ends with a search tag that holds no query; the second is plain text.\<close>

definition blank_search_tag :: agent_env where
  "blank_search_tag =
     \<lparr>abort_at = None, getContext = Inr ''{}'', route = Inr SIMPLE,
      generateFreeCompletion = Inr ''hi'',
      generateContentStream =
        (\<lambda>n m. if n = 0 then Yields [''One moment.'', ''<SEARCH> </SEARCH>''] None
                else Yields [''Done.''] None),
      generateOpenRouterStream = (\<lambda>n m. Yields [] None),
      webSearch = (\<lambda>n q. []), runCanvasAgent = (\<lambda>p. Inr ''canvas''),
      getUserFriendlyError = (\<lambda>e. ''Something went wrong.''), stringify = (\<lambda>r. ''[]'')\<rparr>"

text \<open>The first answer is a search tag and nothing else; the second answer is plain text.\<close>

definition search_then_answer :: agent_env where
  "search_then_answer =
     \<lparr>abort_at = None, getContext = Inr ''{}'', route = Inr SIMPLE,
      generateFreeCompletion = Inr ''hi'',
      generateContentStream =
        (\<lambda>n m. if n = 0 then Yields [''<SEARCH>cats</SEARCH>''] None
                else Yields [''Cats are small carnivores.''] None),
      generateOpenRouterStream = (\<lambda>n m. Yields [] None),
      webSearch = (\<lambda>n q. []), runCanvasAgent = (\<lambda>p. Inr ''canvas''),
      getUserFriendlyError = (\<lambda>e. ''Something went wrong.''), stringify = (\<lambda>r. ''[]'')\<rparr>"

text \<open>The answer carries a canvas tag and no other tag.\<close>

definition canvas_request :: agent_env where
  "canvas_request =
     \<lparr>abort_at = None, getContext = Inr ''{}'', route = Inr SIMPLE,
      generateFreeCompletion = Inr ''hi'',
      generateContentStream =
        (\<lambda>n m. Yields [''Sure, building it. '', ''<CANVAS> a todo app </CANVAS>'', ''ignored''] None),
      generateOpenRouterStream = (\<lambda>n m. Yields [] None),
      webSearch = (\<lambda>n q. []), runCanvasAgent = (\<lambda>p. Inr (''canvas built: '' @ p)),
      getUserFriendlyError = (\<lambda>e. ''Something went wrong.''), stringify = (\<lambda>r. ''[]'')\<rparr>"

text \<open>The first answer carries an image tag and a canvas tag; the second answer is plain text.\<close>

definition image_and_canvas :: agent_env where
  "image_and_canvas =
     \<lparr>abort_at = None, getContext = Inr ''{}'', route = Inr SIMPLE,
      generateFreeCompletion = Inr ''hi'',
      generateContentStream =
        (\<lambda>n m. if n = 0 then Yields [''<IMAGE>a cat</IMAGE><CANVAS>a cat gallery</CANVAS>''] None
                else Yields [''Here is your cat.''] None),
      generateOpenRouterStream = (\<lambda>n m. Yields [] None),
      webSearch = (\<lambda>n q. []), runCanvasAgent = (\<lambda>p. Inr (''canvas built: '' @ p)),
      getUserFriendlyError = (\<lambda>e. ''Something went wrong.''), stringify = (\<lambda>r. ''[]'')\<rparr>"

section \<open>Properties\<close>

subsection \<open>State bookkeeping\<close>

lemma emit_fields [simp]:
  "trace (emit e st) = trace st @ [e]"
  "awaits (emit e st) = awaits st"
  "aborted (emit e st) = aborted st"
  "native_calls (emit e st) = native_calls st"
  "openrouter_calls (emit e st) = openrouter_calls st"
  "searches (emit e st) = searches st"
  "finalResponseText (emit e st) = finalResponseText st"
  "generatedThisLoop (emit e st) = generatedThisLoop st"
  "fallbackSearchContext (emit e st) = fallbackSearchContext st"
  "currentAction (emit e st) = currentAction st"
  "currentPrompt (emit e st) = currentPrompt st"
  by (simp_all add: emit_def)

lemma await_fields [simp]:
  "native_calls (await env st) = native_calls st"
  "openrouter_calls (await env st) = openrouter_calls st"
  "searches (await env st) = searches st"
  "finalResponseText (await env st) = finalResponseText st"
  "generatedThisLoop (await env st) = generatedThisLoop st"
  "fallbackSearchContext (await env st) = fallbackSearchContext st"
  "currentAction (await env st) = currentAction st"
  "currentPrompt (await env st) = currentPrompt st"
  by (simp_all add: await_def Let_def)

lemma await_trace:
  "trace (await env st) = trace st \<or> trace (await env st) = trace st @ [SignalAborted]"
  by (simp add: await_def Let_def)

lemma sleeps_append [simp]: "sleeps (xs @ ys) = sleeps xs @ sleeps ys"
  by (induction xs rule: sleeps.induct) simp_all

lemma sleeps_await [simp]: "sleeps (trace (await env st)) = sleeps (trace st)"
  using await_trace [of env st] by auto

text \<open>
  What holds before the retry loop and is kept by each of its steps holds after it.
\<close>

lemma retry_loop_preserves:
  "\<lbrakk>I st;
    \<And>s m' q. I s \<Longrightarrow> m' = m \<or> m' = ''gemini-2.5-flash'' \<Longrightarrow> I (emit (NativeCall m' q) s);
    \<And>s c. I s \<Longrightarrow> I (emit (StreamChunk c) s);
    \<And>s d. I s \<Longrightarrow> I (emit (Sleep d) s);
    \<And>s. I s \<Longrightarrow> I (await env s);
    \<And>s n. I s \<Longrightarrow> I (s\<lparr>native_calls := n\<rparr>)\<rbrakk>
   \<Longrightarrow> I (snd (retry_loop env p retries attempt m st))"
proof (induction env p retries attempt m st rule: retry_loop.induct)
  case (1 env p retries attempt m st)
  note inv = "1.prems"(1) and native = "1.prems"(2) and chunk = "1.prems"(3)
    and sleep = "1.prems"(4) and wait = "1.prems"(5) and count = "1.prems"(6)
  let ?st1 = "await env ((emit (NativeCall m p) st)\<lparr>native_calls := native_calls st + 1\<rparr>)"
  have "I (emit (NativeCall m p) st)" by (rule native [OF inv]) simp
  then have st1: "I ?st1" by (intro wait count)
  show ?case
  proof (cases "attempt \<le> retries")
    case False
    with inv show ?thesis by (subst retry_loop.simps) simp
  next
    case le: True
    show ?thesis
    proof (cases "generateContentStream env (native_calls st) m")
      case (Yields cs err)
      with le st1 show ?thesis by (subst retry_loop.simps) (simp add: Let_def)
    next
      case (Fails e)
      show ?thesis
      proof (cases "is_not_found e")
        case nf: True
        let ?st2 = "emit (StreamChunk (unavailable_notice m)) ?st1"
        have st2: "I ?st2" by (intro chunk st1)
        show ?thesis
        proof (cases "m = ''gemini-2.5-flash''")
          case True
          with le Fails nf st2 show ?thesis by (subst retry_loop.simps) (simp add: Let_def)
        next
          case False
          have "I (snd (retry_loop env p retries (attempt + 1) ''gemini-2.5-flash'' ?st2))"
          proof (rule "1.IH"(1) [OF le refl Fails nf refl False st2 _ chunk sleep wait count])
            fix s m' q
            assume "I s" "m' = ''gemini-2.5-flash'' \<or> m' = ''gemini-2.5-flash''"
            then show "I (emit (NativeCall m' q) s)" by (intro native) simp_all
          qed
          with le Fails nf False show ?thesis by (subst retry_loop.simps) (simp add: Let_def)
        qed
      next
        case nnf: False
        show ?thesis
        proof (cases "isQuotaError e \<and> attempt < retries")
          case True
          let ?st3 = "await env (emit (Sleep (backoff_delay attempt))
              (emit (StreamChunk (rate_limit_notice (backoff_delay attempt))) ?st1))"
          have st3: "I ?st3" by (intro wait sleep chunk st1)
          have "I (snd (retry_loop env p retries (attempt + 1) m ?st3))"
            by (rule "1.IH"(2) [OF le refl Fails nnf True refl refl refl st3 native chunk sleep wait count])
          with le Fails nnf True show ?thesis by (subst retry_loop.simps) (simp add: Let_def)
        next
          case False
          with le Fails nnf st1 show ?thesis by (subst retry_loop.simps) (auto simp: Let_def)
        qed
      qed
    qed
  qed
qed

subsection \<open>The search service\<close>

text \<open>
  C9. For every message and every value of \<open>modelSupportsSearch\<close>, the heuristic
  accepts a check made with the search-tag flag set.
\<close>

theorem shouldUseExternalSearch_tag_forced:
  "shouldUseExternalSearch message supportsSearch True = True"
  by (simp add: shouldUseExternalSearch_def Let_def)

lemma primary_failure_throws: "primary_failure r \<Longrightarrow> \<exists>e. runBubbleSearch r = Inl e"
  by (auto simp: primary_failure_def runBubbleSearch_def split: fetched.splits body.splits)

lemma fallback_never_throws: "\<exists>rs. runDuckDuckGoFallback r = Inr rs"
  by (simp add: runDuckDuckGoFallback_def split: sum.splits)

lemma fallback_failure_empty: "fallback_failure r \<Longrightarrow> runDuckDuckGoFallback r = Inr []"
  by (auto simp: fallback_failure_def runDuckDuckGoFallback_def duckduckgo_try_def
      split: fetched.splits body.splits sum.splits)

text \<open>
  C7, as amended. Whenever the primary call fails by a rejected or timed-out request, a
  status outside 2xx or a body that is not JSON, \<open>runWebSearch\<close> calls the fallback
  provider after it; the result is a list and never an exception; when the fallback fails
  as well, the list is empty.
\<close>

theorem runWebSearch_falls_back:
  assumes "primary_failure (bubble_api env query limit)"
  shows "fst (runWebSearch env query limit) = [BubbleSearchCall, DuckDuckGoCall] \<and>
         (\<exists>rs. snd (runWebSearch env query limit) = Inr rs) \<and>
         (fallback_failure (duckduckgo_api env query) \<longrightarrow>
            snd (runWebSearch env query limit) = Inr [])"
proof -
  from primary_failure_throws [OF assms] obtain e
    where "runBubbleSearch (bubble_api env query limit) = Inl e" ..
  then have run: "runWebSearch env query limit =
      ([BubbleSearchCall, DuckDuckGoCall], runDuckDuckGoFallback (duckduckgo_api env query))"
    by (simp add: runWebSearch_def)
  show ?thesis
    using run fallback_never_throws [of "duckduckgo_api env query"]
      fallback_failure_empty [of "duckduckgo_api env query"]
    by auto
qed

theorem runWebSearch_falls_back_witness:
  "primary_failure (bubble_api both_down ''cats'' 15) \<and>
   fallback_failure (duckduckgo_api both_down ''cats'') \<and>
   runWebSearch both_down ''cats'' 15 = ([BubbleSearchCall, DuckDuckGoCall], Inr [])"
  using runWebSearch_falls_back [of both_down "''cats''" 15]
  by (simp add: both_down_def primary_failure_def fallback_failure_def prod_eq_iff)

text \<open>
  C7, as stated, fails for a malformed payload that is still JSON: with \<open>results\<close> not an
  array the primary call returns the empty list, and the fallback provider is not called.
\<close>

theorem runWebSearch_malformed_payload_no_fallback:
  "runWebSearch malformed_results ''cats'' 15 = ([BubbleSearchCall], Inr [])"
  by (simp add: malformed_results_def runWebSearch_def runBubbleSearch_def resp_ok_def)

subsection \<open>The retry wrapper\<close>

lemma retry_step_quota:
  assumes "generateContentStream env (native_calls st) m = Fails e"
    "isQuotaError e" "\<not> is_not_found e" "attempt < retries" "nxt = attempt + 1"
  shows "retry_loop env p retries attempt m st =
         retry_loop env p retries nxt m
           (await env (emit (Sleep (backoff_delay attempt))
              (emit (StreamChunk (rate_limit_notice (backoff_delay attempt)))
                 (await env ((emit (NativeCall m p) st)\<lparr>native_calls := native_calls st + 1\<rparr>)))))"
  using assms by (subst retry_loop.simps) (simp add: Let_def)

lemma retry_step_last:
  assumes "generateContentStream env (native_calls st) m = Fails e" "\<not> is_not_found e"
  shows "retry_loop env p retries retries m st =
         (Inl (Exception e), await env ((emit (NativeCall m p) st)\<lparr>native_calls := native_calls st + 1\<rparr>))"
  using assms by (subst retry_loop.simps) (simp add: Let_def)

text \<open>
  C4, as amended. The delay before the retry after attempt \<open>n\<close> is \<open>2^n * 2000 + 1000\<close>
  milliseconds, which is 3000, 5000 and 9000 for the attempts 0, 1 and 2. When four calls
  in a row fail with a quota error, the wrapper sleeps these three delays, calls the
  provider four times and throws the fourth error.
\<close>

theorem quota_retries:
  assumes m: "m \<noteq> []"
    and q: "\<forall>i<4. generateContentStream env (native_calls st + i) m = Fails (errs i) \<and>
                   isQuotaError (errs i) \<and> \<not> is_not_found (errs i)"
  shows "map backoff_delay [0, 1, 2] = [3000, 5000, 9000] \<and>
         fst (generateContentStreamWithRetry env (Some m) p 3 st) = Inl (Exception (errs 3)) \<and>
         sleeps (trace (snd (generateContentStreamWithRetry env (Some m) p 3 st))) =
           sleeps (trace st) @ [3000, 5000, 9000] \<and>
         native_calls (snd (generateContentStreamWithRetry env (Some m) p 3 st)) = native_calls st + 4"
proof -
  have d: "backoff_delay 0 = 3000" "backoff_delay 1 = 5000" "backoff_delay 2 = 9000"
    by (simp_all add: backoff_delay_def)
  define s1 where "s1 = await env (emit (Sleep (backoff_delay 0))
      (emit (StreamChunk (rate_limit_notice (backoff_delay 0)))
        (await env ((emit (NativeCall m p) st)\<lparr>native_calls := native_calls st + 1\<rparr>))))"
  define s2 where "s2 = await env (emit (Sleep (backoff_delay 1))
      (emit (StreamChunk (rate_limit_notice (backoff_delay 1)))
        (await env ((emit (NativeCall m p) s1)\<lparr>native_calls := native_calls s1 + 1\<rparr>))))"
  define s3 where "s3 = await env (emit (Sleep (backoff_delay 2))
      (emit (StreamChunk (rate_limit_notice (backoff_delay 2)))
        (await env ((emit (NativeCall m p) s2)\<lparr>native_calls := native_calls s2 + 1\<rparr>))))"
  define s4 where "s4 = await env ((emit (NativeCall m p) s3)\<lparr>native_calls := native_calls s3 + 1\<rparr>)"
  have n1: "native_calls s1 = native_calls st + 1" by (simp add: s1_def)
  have n2: "native_calls s2 = native_calls st + 2" by (simp add: s2_def n1)
  have n3: "native_calls s3 = native_calls st + 3" by (simp add: s3_def n2)
  have n4: "native_calls s4 = native_calls st + 4" by (simp add: s4_def n3)
  from q have c0: "generateContentStream env (native_calls st) m = Fails (errs 0)"
    and q0: "isQuotaError (errs 0)" "\<not> is_not_found (errs 0)"
    by (auto dest: spec [of _ 0])
  from q have c1: "generateContentStream env (native_calls s1) m = Fails (errs 1)"
    and q1: "isQuotaError (errs 1)" "\<not> is_not_found (errs 1)"
    unfolding n1 by (auto dest: spec [of _ 1])
  from q have c2: "generateContentStream env (native_calls s2) m = Fails (errs 2)"
    and q2: "isQuotaError (errs 2)" "\<not> is_not_found (errs 2)"
    unfolding n2 by (auto dest: spec [of _ 2])
  from q have c3: "generateContentStream env (native_calls s3) m = Fails (errs 3)"
    and q3: "\<not> is_not_found (errs 3)"
    unfolding n3 by (auto dest: spec [of _ 3])
  have "retry_loop env p 3 0 m st = retry_loop env p 3 1 m s1"
    unfolding s1_def by (rule retry_step_quota [OF c0 q0]) simp_all
  also have "\<dots> = retry_loop env p 3 2 m s2"
    unfolding s2_def by (rule retry_step_quota [OF c1 q1]) simp_all
  also have "\<dots> = retry_loop env p 3 3 m s3"
    unfolding s3_def by (rule retry_step_quota [OF c2 q2]) simp_all
  also have "\<dots> = (Inl (Exception (errs 3)), s4)"
    unfolding s4_def by (rule retry_step_last [OF c3 q3])
  finally have r: "retry_loop env p 3 0 m st = (Inl (Exception (errs 3)), s4)" .
  have t: "sleeps (trace s4) = sleeps (trace st) @ [3000, 5000, 9000]"
    unfolding s4_def s3_def s2_def s1_def d by simp
  show ?thesis
    using m r t n4 d by (simp add: generateContentStreamWithRetry_def or_else_def)
qed

theorem quota_retries_witness:
  "fst (generateContentStreamWithRetry always_rate_limited (Some ''gemini-2.5-flash'') ''hello'' 3
          (initial_state always_rate_limited hello)) =
     Inl (Exception (JsError ''ApiError'' (Some 429) ''Resource exhausted'')) \<and>
   sleeps (trace (snd (generateContentStreamWithRetry always_rate_limited (Some ''gemini-2.5-flash'')
          ''hello'' 3 (initial_state always_rate_limited hello)))) = [3000, 5000, 9000]"
  using quota_retries [of "''gemini-2.5-flash''" always_rate_limited
      "initial_state always_rate_limited hello" "\<lambda>i. JsError ''ApiError'' (Some 429) ''Resource exhausted''"
      "''hello''"]
  by (simp add: always_rate_limited_def initial_state_def isQuotaError_def is_not_found_def)

text \<open>C4, as stated, names the delays 5000, 7000 and 9000, which the formula does not give.\<close>

theorem claimed_delays_differ: "map backoff_delay [0, 1, 2] \<noteq> [5000, 7000, 9000]"
  by (simp add: backoff_delay_def)

subsection \<open>The session guard\<close>

text \<open>
  C8, as amended. A send that passes the checks installs a timer of 300000 ms. If neither
  a chunk nor the completion has come when the timer expires, the callback aborts the
  request, clears the sending flag and reports the timeout as an error. The first chunk
  that arrives before that clears the timer: from then on no passage of time cancels the
  request.
\<close>

theorem safety_timeout_until_first_chunk:
  assumes "\<not> isSendingRef g" and "t0 + 300000 \<le> now"
  shows "safetyTimeout (send_start t0 True g) = Some (t0 + 300000) \<and>
         signal_aborted (time_passes now (send_start t0 True g)) \<and>
         \<not> isSendingRef (time_passes now (send_start t0 True g)) \<and>
         toasts (time_passes now (send_start t0 True g)) =
           toasts g @ [(''Response timed out. The operation took too long.'', ''error'')] \<and>
         time_passes now (onStreamChunk (send_start t0 True g)) =
           onStreamChunk (send_start t0 True g) \<and>
         \<not> signal_aborted (onStreamChunk (send_start t0 True g)) \<and>
         toasts (onStreamChunk (send_start t0 True g)) = toasts g"
  using assms
  by (simp add: send_start_def time_passes_def timeout_callback_def onStreamChunk_def Let_def)

theorem safety_timeout_until_first_chunk_witness:
  "\<not> isSendingRef idle_guard \<and> (0::nat) + 300000 \<le> 300000 \<and>
   signal_aborted (time_passes 300000 (send_start 0 True idle_guard)) \<and>
   toasts (time_passes 300000 (send_start 0 True idle_guard)) =
     [(''Response timed out. The operation took too long.'', ''error'')]"
  using safety_timeout_until_first_chunk [of idle_guard 0 300000]
  by (simp add: idle_guard_def)

text \<open>
  C8, as stated, fails when the provider stalls after its first chunk: a day later the
  send is still in flight, not cancelled, and nothing has been reported.
\<close>

theorem stalled_after_first_chunk_never_times_out:
  "isSendingRef (time_passes 86400000 (onStreamChunk (time_passes 1000 (send_start 0 True idle_guard)))) \<and>
   \<not> signal_aborted
        (time_passes 86400000 (onStreamChunk (time_passes 1000 (send_start 0 True idle_guard)))) \<and>
   toasts (time_passes 86400000 (onStreamChunk (time_passes 1000 (send_start 0 True idle_guard)))) = []"
  by (simp add: idle_guard_def send_start_def time_passes_def onStreamChunk_def)

subsection \<open>The loop bound\<close>

lemma iteration_numbers_append [simp]:
  "iteration_numbers (xs @ ys) = iteration_numbers xs @ iteration_numbers ys"
  by (induction xs rule: iteration_numbers.induct) simp_all

lemma iterations_await [simp]:
  "iteration_numbers (trace (await env st)) = iteration_numbers (trace st)"
  using await_trace [of env st] by auto

lemma iterations_retry_loop:
  "iteration_numbers (trace (snd (retry_loop env p retries attempt m st))) =
   iteration_numbers (trace st)"
  by (rule retry_loop_preserves
      [where I = "\<lambda>s. iteration_numbers (trace s) = iteration_numbers (trace st)"]) simp_all

lemma iterations_append_chunk [simp]:
  "iteration_numbers (trace (append_chunk c st)) = iteration_numbers (trace st)"
  by (simp add: append_chunk_def)

lemma iterations_stream_native:
  "iteration_numbers (trace (snd (stream_native env cs err st))) = iteration_numbers (trace st)"
  by (induction cs arbitrary: st) (simp_all add: Let_def)

lemma iterations_stream_openrouter:
  "iteration_numbers (trace (snd (stream_openrouter env cs err st))) = iteration_numbers (trace st)"
  by (induction cs arbitrary: st) (simp_all add: Let_def)

lemma iterations_generate:
  "iteration_numbers (trace (snd (generate env input mc st))) = iteration_numbers (trace st)"
proof (cases "isNative mc")
  case True
  obtain r st1 where r: "generateContentStreamWithRetry env (Some (model_name mc))
      (currentPrompt st) 3 (st\<lparr>generatedThisLoop := []\<rparr>) = (r, st1)"
    by (cases "generateContentStreamWithRetry env (Some (model_name mc))
      (currentPrompt st) 3 (st\<lparr>generatedThisLoop := []\<rparr>)")
  have "iteration_numbers (trace st1) = iteration_numbers (trace st)"
    using iterations_retry_loop [of env "currentPrompt st" 3 0
        "or_else (Some (model_name mc)) ''gemini-2.5-flash''" "st\<lparr>generatedThisLoop := []\<rparr>"] r
    by (simp add: generateContentStreamWithRetry_def)
  with True r show ?thesis
    by (auto simp: generate_def Let_def iterations_stream_native split: sum.splits)
next
  case False
  then show ?thesis
    by (simp add: generate_def Let_def iterations_stream_openrouter split: stream_response.splits)
qed

lemma iterations_reactive_search [simp]:
  "iteration_numbers (trace (reactive_search env input q st)) = iteration_numbers (trace st)"
  by (simp add: reactive_search_def Let_def)

lemma iterations_dispatch_tags:
  "iteration_numbers (trace (snd (dispatch_tags env st))) = iteration_numbers (trace st)"
  by (simp add: dispatch_tags_def Let_def split: option.splits sum.splits)

lemma iterations_after_generation:
  "iteration_numbers (trace (snd (after_generation env input mc st))) = iteration_numbers (trace st)"
  by (simp add: after_generation_def iterations_dispatch_tags split: list.splits)

lemma iterations_iteration:
  "iteration_numbers (trace (snd (iteration env input mc st))) = iteration_numbers (trace st)"
proof -
  obtain e st1 where g: "generate env input mc st = (e, st1)"
    by (cases "generate env input mc st")
  with iterations_generate [of env input mc st]
  have "iteration_numbers (trace st1) = iteration_numbers (trace st)" by simp
  with g show ?thesis
    by (simp add: iteration_def iterations_after_generation split: option.splits)
qed


lemma iterations_agent_loop:
  "loopCount \<le> MAX_LOOPS \<Longrightarrow>
   \<exists>k. loopCount + k \<le> MAX_LOOPS \<and>
       iteration_numbers (trace (snd (agent_loop env input mc loopCount st))) =
       iteration_numbers (trace st) @ [loopCount + 1 ..< loopCount + 1 + k]"
proof (induction env input mc loopCount st rule: agent_loop.induct)
  case (1 env input mc loopCount st)
  let ?st' = "emit (Iteration (loopCount + 1)) st"
  show ?case
  proof (cases "loopCount < MAX_LOOPS \<and> \<not> aborted st")
    case False
    then have "iteration_numbers (trace (snd (agent_loop env input mc loopCount st))) =
        iteration_numbers (trace st)"
      by (subst agent_loop.simps) auto
    with "1.prems" show ?thesis by (intro exI [of _ 0]) simp
  next
    case True
    obtain s st1 where it: "iteration env input mc ?st' = (s, st1)"
      by (cases "iteration env input mc ?st'")
    with iterations_iteration [of env input mc ?st']
    have tr: "iteration_numbers (trace st1) = iteration_numbers (trace st) @ [loopCount + 1]"
      by simp
    have again: ?thesis
      if eq: "agent_loop env input mc loopCount st = agent_loop env input mc (loopCount + 1) st1"
        and ih: "\<exists>k. loopCount + 1 + k \<le> MAX_LOOPS \<and>
          iteration_numbers (trace (snd (agent_loop env input mc (loopCount + 1) st1))) =
          iteration_numbers (trace st1) @ [loopCount + 1 + 1 ..< loopCount + 1 + 1 + k]"
    proof -
      from ih obtain k where k: "loopCount + 1 + k \<le> MAX_LOOPS"
        "iteration_numbers (trace (snd (agent_loop env input mc (loopCount + 1) st1))) =
         iteration_numbers (trace st1) @ [loopCount + 1 + 1 ..< loopCount + 1 + 1 + k]"
        by auto
      have "[loopCount + 1 ..< loopCount + 1 + (k + 1)] =
            (loopCount + 1) # [loopCount + 1 + 1 ..< loopCount + 1 + 1 + k]"
        by (simp add: upt_rec)
      with k tr eq show ?thesis
        by (intro exI [of _ "k + 1"]) simp
    qed
    show ?thesis
    proof (cases s)
      case Continue
      with True it have eq: "agent_loop env input mc loopCount st =
          agent_loop env input mc (loopCount + 1) st1"
        by (subst agent_loop.simps) simp
      from "1.IH"(1) [of s st1] True it Continue
      have "\<exists>k. loopCount + 1 + k \<le> MAX_LOOPS \<and>
          iteration_numbers (trace (snd (agent_loop env input mc (loopCount + 1) st1))) =
          iteration_numbers (trace st1) @ [loopCount + 1 + 1 ..< loopCount + 1 + 1 + k]"
        by auto
      with eq show ?thesis by (rule again)
    next
      case Break
      with True it have eq: "agent_loop env input mc loopCount st =
          agent_loop env input mc (loopCount + 1) st1"
        by (subst agent_loop.simps) simp
      from "1.IH"(2) [of s st1] True it Break
      have "\<exists>k. loopCount + 1 + k \<le> MAX_LOOPS \<and>
          iteration_numbers (trace (snd (agent_loop env input mc (loopCount + 1) st1))) =
          iteration_numbers (trace st1) @ [loopCount + 1 + 1 ..< loopCount + 1 + 1 + k]"
        by auto
      with eq show ?thesis by (rule again)
    next
      case (Return out)
      with True it have "agent_loop env input mc loopCount st = (Inr out, st1)"
        by (subst agent_loop.simps) simp
      with tr True show ?thesis by (intro exI [of _ 1]) simp
    next
      case (Throw e)
      with True it have "agent_loop env input mc loopCount st = (Inl e, st1)"
        by (subst agent_loop.simps) simp
      with tr True show ?thesis by (intro exI [of _ 1]) simp
    qed
  qed
qed

lemma iterations_initial [simp]: "iteration_numbers (trace (initial_state env input)) = []"
  by (simp add: initial_state_def Let_def)

lemma iterations_notices [simp]:
  "iteration_numbers (trace (fold (\<lambda>n. emit (StreamChunk n)) ns st)) =
   iteration_numbers (trace st)"
  by (induction ns arbitrary: st) simp_all

lemma iterations_preemptive_search [simp]:
  "iteration_numbers (trace (preemptive_search env input st)) = iteration_numbers (trace st)"
  by (simp add: preemptive_search_def Let_def)

lemma iterations_try_block:
  "\<exists>k. k \<le> MAX_LOOPS \<and>
       iteration_numbers (trace (snd (try_block env input mc mem st))) =
       iteration_numbers (trace st) @ [1 ..< 1 + k]"
proof (cases "\<exists>a v. route env = Inr a \<and> JSON_parse mem = Inr v")
  case False
  then have "iteration_numbers (trace (snd (try_block env input mc mem st))) =
      iteration_numbers (trace st)"
    by (auto simp: try_block_def Let_def split: sum.splits)
  then show ?thesis by (intro exI [of _ 0]) simp
next
  case True
  then obtain a v where a: "route env = Inr a" "JSON_parse mem = Inr v" by blast
  define st2 where "st2 =
     (if shouldUseExternalSearch (prompt input) (modelSupportsSearch mc) False
      then preemptive_search env input (await env (emit (RouteCall (prompt input)) st))
      else await env (emit (RouteCall (prompt input)) st))
     \<lparr>currentAction := a, currentPrompt := prompt input\<rparr>"
  have tr: "iteration_numbers (trace st2) = iteration_numbers (trace st)"
    by (simp add: st2_def)
  have eq: "try_block env input mc mem st = agent_loop env input mc 0 st2"
    using a by (simp add: try_block_def Let_def st2_def)
  from iterations_agent_loop [of 0 env input mc st2] tr eq show ?thesis
    by auto
qed

text \<open>
  C1. In every run, whatever the model emits, the loop counter takes the values
  1, 2, ..., k in this order for some k of at most 6: it grows by one with each
  iteration, and there are at most \<open>MAX_LOOPS = 6\<close> iterations.
\<close>

theorem loop_bound:
  "iteration_numbers (trace (snd (runAutonomousAgent env input))) =
     [1 ..< Suc (length (iteration_numbers (trace (snd (runAutonomousAgent env input)))))] \<and>
   length (iteration_numbers (trace (snd (runAutonomousAgent env input)))) \<le> 6"
proof -
  let ?T = "iteration_numbers (trace (snd (runAutonomousAgent env input)))"
  have "\<exists>k. k \<le> MAX_LOOPS \<and> ?T = [1 ..< 1 + k]"
  proof (cases "thinkingMode input = Instant")
    case True
    then have "?T = []"
      by (simp add: runAutonomousAgent_def Let_def split: sum.splits)
    then show ?thesis by (intro exI [of _ 0]) simp
  next
    case False
    let ?mem = "case getContext env of Inl e \<Rightarrow> EmptyText | Inr c \<Rightarrow> StringifyOf c"
    let ?st1 = "fold (\<lambda>n. emit (StreamChunk n)) (notices (choose_model input))
        (await env (emit MemoryFetch (initial_state env input)))"
    have "snd (runAutonomousAgent env input) =
        snd (try_block env input (choose_model input) ?mem ?st1)"
      using False by (simp add: runAutonomousAgent_def Let_def split: prod.splits sum.splits)
    with iterations_try_block [of env input "choose_model input" ?mem ?st1]
    show ?thesis by simp
  qed
  then obtain k where "k \<le> MAX_LOOPS" "?T = [1 ..< 1 + k]" by blast
  then show ?thesis by (simp add: MAX_LOOPS_def)
qed

theorem loop_bound_witness:
  "iteration_numbers (trace (snd (runAutonomousAgent always_deep hello))) = [1, 2, 3, 4, 5, 6] \<and>
   length (iteration_numbers (trace (snd (runAutonomousAgent always_deep hello)))) \<le> 6"
proof -
  have "iteration_numbers (trace (snd (runAutonomousAgent always_deep hello))) = [1, 2, 3, 4, 5, 6]"
    by code_simp
  with loop_bound [of always_deep hello] show ?thesis by simp
qed

subsection \<open>Cancellation\<close>

text \<open>
  C2. The claim asks that no provider or search call is issued once the signal has fired.
  In this run the signal fires after the first streamed chunk, which holds a search tag.
  The stream loop stops, but the tags of the text received so far are still served: the
  agent issues the web search for \<open>cats\<close> after the signal, and only then leaves the loop.
\<close>

theorem search_issued_after_cancellation:
  "trace (snd (runAutonomousAgent cancelled_mid_stream about_cats)) =
     [MemoryFetch, RouteCall ''tell me about cats'', Iteration 1,
      NativeCall ''gemini-2.5-flash'' ''tell me about cats'',
      StreamChunk ''<SEARCH>cats</SEARCH>'', SignalAborted, WebSearch ''cats''] \<and>
   fst (runAutonomousAgent cancelled_mid_stream about_cats) =
     Inr \<lparr>exit_point = LoopExit, out_text = ''<SEARCH>cats</SEARCH>''\<rparr>"
  by code_simp

text \<open>
  On the compatible provider the aborted request throws; the iteration replaces what was
  thrown by the flag \<open>true\<close>, so the \<open>AbortError\<close> branch of the outer \<open>catch\<close> is not
  taken and the run ends with the error message instead of the text received.
\<close>

lemma cancelled_openrouter_reports_error:
  "trace (snd (runAutonomousAgent cancelled_mid_stream about_cats_openrouter)) =
     [MemoryFetch, RouteCall ''tell me about cats'', Iteration 1,
      OpenRouterCall ''openai/gpt-4o'' ''tell me about cats'',
      StreamChunk ''Hello'', SignalAborted] \<and>
   fst (runAutonomousAgent cancelled_mid_stream about_cats_openrouter) =
     Inr \<lparr>exit_point = ErrorCaught, out_text = warning_sign @ ''Something went wrong.''\<rparr>"
  by code_simp

subsection \<open>A failed memory fetch\<close>

text \<open>
  C3. The claim asks that a failed memory fetch does not fail the request. In every mode
  but the instant one, once the router has answered, the empty \<open>memoryContextString\<close>
  reaches \<open>JSON.parse\<close>, which throws: the run ends in the outer \<open>catch\<close> with the error
  message, and no generation call has been made.
\<close>

theorem memory_failure_fails_request:
  assumes "getContext env = Inl e" and "thinkingMode input \<noteq> Instant" and "route env = Inr a"
  shows "fst (runAutonomousAgent env input) =
           Inr \<lparr>exit_point = ErrorCaught,
                out_text = warning_sign @ getUserFriendlyError env
                  (Exception (JsError ''SyntaxError'' None ''Unexpected end of JSON input''))\<rparr> \<and>
         native_calls (snd (runAutonomousAgent env input)) = 0 \<and>
         openrouter_calls (snd (runAutonomousAgent env input)) = 0"
proof -
  have counts: "native_calls (fold (\<lambda>n. emit (StreamChunk n)) ns st) = native_calls st"
    "openrouter_calls (fold (\<lambda>n. emit (StreamChunk n)) ns st) = openrouter_calls st"
    for ns st
    by (induction ns arbitrary: st) simp_all
  from assms show ?thesis
    by (simp add: runAutonomousAgent_def try_block_def JSON_parse_def catch_block_def
        is_abort_error_def preemptive_search_def initial_state_def counts Let_def)
qed

theorem memory_failure_fails_request_witness:
  "fst (runAutonomousAgent memory_down hello) =
     Inr \<lparr>exit_point = ErrorCaught, out_text = warning_sign @ ''Something went wrong.''\<rparr> \<and>
   trace (snd (runAutonomousAgent memory_down hello)) = [MemoryFetch, RouteCall ''hello'']"
proof -
  have "trace (snd (runAutonomousAgent memory_down hello)) = [MemoryFetch, RouteCall ''hello'']"
    by code_simp
  with memory_failure_fails_request [of memory_down _ hello SIMPLE] show ?thesis
    by (simp add: memory_down_def hello_def)
qed

subsection \<open>The default model\<close>

lemma native_await [simp]:
  "list_all uses_default_native (trace (await env st)) = list_all uses_default_native (trace st)"
  using await_trace [of env st] by auto

lemma native_retry_loop:
  "list_all uses_default_native (trace st) \<Longrightarrow>
   list_all uses_default_native
     (trace (snd (retry_loop env p retries attempt ''gemini-2.5-flash'' st)))"
  by (rule retry_loop_preserves [where I = "\<lambda>s. list_all uses_default_native (trace s)"]) auto

lemma native_stream_native:
  "list_all uses_default_native (trace st) \<Longrightarrow>
   list_all uses_default_native (trace (snd (stream_native env cs err st)))"
  by (induction cs arbitrary: st) (simp_all add: Let_def append_chunk_def)

lemma native_generate:
  assumes "isNative mc" "model_name mc = ''gemini-2.5-flash''"
    and "list_all uses_default_native (trace st)"
  shows "list_all uses_default_native (trace (snd (generate env input mc st)))"
proof -
  obtain r st1 where r: "generateContentStreamWithRetry env (Some (model_name mc))
      (currentPrompt st) 3 (st\<lparr>generatedThisLoop := []\<rparr>) = (r, st1)"
    by (cases "generateContentStreamWithRetry env (Some (model_name mc))
      (currentPrompt st) 3 (st\<lparr>generatedThisLoop := []\<rparr>)")
  have "list_all uses_default_native (trace st1)"
    using native_retry_loop [of "st\<lparr>generatedThisLoop := []\<rparr>" env "currentPrompt st" 3 0] r assms
    by (simp add: generateContentStreamWithRetry_def or_else_def)
  with assms r show ?thesis
    by (auto simp: generate_def Let_def native_stream_native split: sum.splits)
qed

lemma native_dispatch_tags:
  "list_all uses_default_native (trace st) \<Longrightarrow>
   list_all uses_default_native (trace (snd (dispatch_tags env st)))"
  by (simp add: dispatch_tags_def Let_def split: option.splits sum.splits)

lemma native_after_generation:
  "list_all uses_default_native (trace st) \<Longrightarrow>
   list_all uses_default_native (trace (snd (after_generation env input mc st)))"
  by (simp add: after_generation_def native_dispatch_tags reactive_search_def Let_def
      split: list.splits)

lemma native_iteration:
  assumes "isNative mc" "model_name mc = ''gemini-2.5-flash''"
    and "list_all uses_default_native (trace st)"
  shows "list_all uses_default_native (trace (snd (iteration env input mc st)))"
proof -
  obtain e st1 where g: "generate env input mc st = (e, st1)"
    by (cases "generate env input mc st")
  with native_generate [OF assms, of env input]
  have "list_all uses_default_native (trace st1)" by simp
  with g show ?thesis
    by (simp add: iteration_def native_after_generation split: option.splits)
qed

lemma agent_loop_preserves:
  "\<lbrakk>I st; \<And>s n. I s \<Longrightarrow> I (emit (Iteration n) s);
    \<And>s. I s \<Longrightarrow> I (snd (iteration env input mc s))\<rbrakk>
   \<Longrightarrow> I (snd (agent_loop env input mc loopCount st))"
proof (induction env input mc loopCount st rule: agent_loop.induct)
  case (1 env input mc loopCount st)
  let ?st' = "emit (Iteration (loopCount + 1)) st"
  show ?case
  proof (cases "loopCount < MAX_LOOPS \<and> \<not> aborted st")
    case False
    with "1.prems"(1) show ?thesis by (subst agent_loop.simps) auto
  next
    case True
    obtain s st1 where it: "iteration env input mc ?st' = (s, st1)"
      by (cases "iteration env input mc ?st'")
    have "I (snd (iteration env input mc ?st'))"
      by (intro "1.prems"(3) "1.prems"(2) "1.prems"(1))
    with it have st1: "I st1" by simp
    show ?thesis
    proof (cases s)
      case Continue
      have "I (snd (agent_loop env input mc (loopCount + 1) st1))"
        using True it Continue
        by (intro "1.IH"(1) [of s st1] st1 "1.prems"(2) "1.prems"(3)) simp_all
      with True it Continue show ?thesis by (subst agent_loop.simps) simp
    next
      case Break
      have "I (snd (agent_loop env input mc (loopCount + 1) st1))"
        using True it Break
        by (intro "1.IH"(2) [of s st1] st1 "1.prems"(2) "1.prems"(3)) simp_all
      with True it Break show ?thesis by (subst agent_loop.simps) simp
    next
      case (Return out)
      with True it st1 show ?thesis by (subst agent_loop.simps) simp
    next
      case (Throw e)
      with True it st1 show ?thesis by (subst agent_loop.simps) simp
    qed
  qed
qed

lemma native_agent_loop:
  assumes "isNative mc" "model_name mc = ''gemini-2.5-flash''"
    and "list_all uses_default_native (trace st)"
  shows "list_all uses_default_native (trace (snd (agent_loop env input mc loopCount st)))"
  by (rule agent_loop_preserves [where I = "\<lambda>s. list_all uses_default_native (trace s)"])
    (simp_all add: assms native_iteration)

lemma native_notices [simp]:
  "list_all uses_default_native (trace (fold (\<lambda>n. emit (StreamChunk n)) ns st)) =
   list_all uses_default_native (trace st)"
  by (induction ns arbitrary: st) simp_all

lemma native_try_block:
  assumes "isNative mc" "model_name mc = ''gemini-2.5-flash''"
    and "list_all uses_default_native (trace st)"
  shows "list_all uses_default_native (trace (snd (try_block env input mc mem st)))"
  using assms
  by (auto simp: try_block_def Let_def preemptive_search_def native_agent_loop
      split: sum.splits)

lemma blank_model_choice:
  assumes "default_blank_model (model input) = ''gemini-2.5-flash''"
    and "thinkingMode input = Fast \<or> thinkingMode input = Think"
  shows "model_name (choose_model input) = ''gemini-2.5-flash'' \<and> isNative (choose_model input)"
proof -
  have "isGoogleModel ''gemini-2.5-flash''" by code_simp
  with assms show ?thesis
    by (auto simp: choose_model_def Let_def default_model_def)
qed

lemma blank_default:
  "model input = None \<or> (\<exists>s. model input = Some s \<and> trim s = []) \<Longrightarrow>
   default_blank_model (model input) = ''gemini-2.5-flash''"
  by (auto simp: default_blank_model_def default_model_def)

text \<open>
  C10, as amended. If the model string is missing, empty or only white space and the
  thinking mode is neither \<open>instant\<close> nor \<open>deep\<close>, the request is classified as native
  with the model \<open>gemini-2.5-flash\<close>, and every provider call of the run is a call of the
  native provider with that model.
\<close>

theorem blank_model_uses_default:
  assumes "model input = None \<or> (\<exists>s. model input = Some s \<and> trim s = [])"
    and "thinkingMode input = Fast \<or> thinkingMode input = Think"
  shows "model_name (choose_model input) = ''gemini-2.5-flash'' \<and> isNative (choose_model input) \<and>
         list_all uses_default_native (trace (snd (runAutonomousAgent env input)))"
proof -
  from blank_model_choice [OF blank_default [OF assms(1)] assms(2)]
  have mc: "model_name (choose_model input) = ''gemini-2.5-flash''" "isNative (choose_model input)"
    by simp_all
  let ?mem = "case getContext env of Inl e \<Rightarrow> EmptyText | Inr c \<Rightarrow> StringifyOf c"
  let ?st1 = "fold (\<lambda>n. emit (StreamChunk n)) (notices (choose_model input))
      (await env (emit MemoryFetch (initial_state env input)))"
  have st1: "list_all uses_default_native (trace ?st1)"
    by (simp add: initial_state_def Let_def)
  have "snd (runAutonomousAgent env input) =
      snd (try_block env input (choose_model input) ?mem ?st1)"
    using assms(2) by (auto simp: runAutonomousAgent_def Let_def split: prod.splits sum.splits)
  with native_try_block [OF mc(2) mc(1) st1, of env input ?mem] mc show ?thesis by simp
qed

theorem blank_model_uses_default_witness:
  "model_name (choose_model blank_fast) = ''gemini-2.5-flash'' \<and> isNative (choose_model blank_fast) \<and>
   list_all uses_default_native (trace (snd (runAutonomousAgent greeting blank_fast))) \<and>
   called_models (trace (snd (runAutonomousAgent greeting blank_fast))) = [''gemini-2.5-flash'']"
proof -
  have t: "trim [CHR 0x20, CHR 0xC2, CHR 0xA0, CHR 0xE2, CHR 0x80, CHR 0xA8] = []" by code_simp
  have c: "called_models (trace (snd (runAutonomousAgent greeting blank_fast))) = [''gemini-2.5-flash'']"
    by code_simp
  from blank_model_uses_default [of blank_fast greeting] t c show ?thesis
    by (simp add: blank_fast_def)
qed

text \<open>
  C10, as stated, fails in two modes for the blank model string \<open>'   '\<close>. In the instant
  mode the run calls its provider and returns before the model string is looked at. In
  the deep mode the default is put in and then replaced, so the provider is called with
  \<open>gemini-3-pro-preview\<close>.
\<close>

theorem blank_model_instant_and_deep_mode:
  "default_blank_model (Some ''   '') = ''gemini-2.5-flash'' \<and>
   trace (snd (runAutonomousAgent greeting blank_instant)) = [MemoryFetch, FreeCompletion ''hello''] \<and>
   called_models (trace (snd (runAutonomousAgent greeting blank_deep))) = [''gemini-3-pro-preview'']"
  by code_simp

subsection \<open>Search tags and canvas tags\<close>

text \<open>
  C5. The claim asks that a single search tag without fallback context ends the loop
  after that iteration, without another generation. The source tests exactly this and
  then executes \<open>break\<close>, which leaves the \<open>switch\<close> and not the loop. So when the text
  generated in an iteration holds exactly one search-tag pair, the tag holds no query, there
  is no deep tag with content and no fallback search context exists, the loop goes on as
  after a \<open>continue\<close>: with the counter one higher, the same prompt and the state the
  generation left, and it generates again unless the bound or the signal stops it.
\<close>

theorem blank_search_tag_does_not_end_loop:
  assumes "loopCount < MAX_LOOPS" and "\<not> aborted st"
    and "generate env input mc (emit (Iteration (loopCount + 1)) st) = (None, st1)"
    and "searchMatches (generatedThisLoop st1) = [q]" and "trim q = []"
    and "group1 (match_tag ''<DEEP>'' ''</DEEP>'' (generatedThisLoop st1)) = None"
    and "fallbackSearchContext st1 = []"
  shows "agent_loop env input mc loopCount st = agent_loop env input mc (loopCount + 1) st1 \<and>
         currentPrompt st1 = currentPrompt st"
proof -
  have "currentPrompt (snd (retry_loop env p retries attempt m s)) = currentPrompt s"
    for p retries attempt m s
    by (rule retry_loop_preserves [where I = "\<lambda>x. currentPrompt x = currentPrompt s"]) simp_all
  moreover have "currentPrompt (snd (stream_native env cs err s)) = currentPrompt s" for cs err s
    by (induction cs arbitrary: s) (simp_all add: Let_def append_chunk_def)
  moreover have "currentPrompt (snd (stream_openrouter env cs err s)) = currentPrompt s"
    for cs err s
    by (induction cs arbitrary: s) (simp_all add: Let_def append_chunk_def)
  ultimately have "currentPrompt (snd (generate env input mc s)) = currentPrompt s" for s
  proof -
    assume retry: "\<And>p retries attempt m s.
        currentPrompt (snd (retry_loop env p retries attempt m s)) = currentPrompt s"
      and native: "\<And>cs err s. currentPrompt (snd (stream_native env cs err s)) = currentPrompt s"
      and other: "\<And>cs err s. currentPrompt (snd (stream_openrouter env cs err s)) = currentPrompt s"
    let ?s = "s\<lparr>generatedThisLoop := []\<rparr>"
    obtain r s1 where r: "generateContentStreamWithRetry env (Some (model_name mc))
        (currentPrompt ?s) 3 ?s = (r, s1)"
      by (cases "generateContentStreamWithRetry env (Some (model_name mc)) (currentPrompt ?s) 3 ?s")
    with retry [of "currentPrompt ?s" 3 0 "or_else (Some (model_name mc)) ''gemini-2.5-flash''" ?s]
    have s1: "currentPrompt s1 = currentPrompt s"
      by (simp add: generateContentStreamWithRetry_def)
    show ?thesis
    proof (cases "isNative mc")
      case True
      with r s1 native show ?thesis
        by (auto simp: generate_def Let_def split: sum.splits)
    next
      case False
      with other show ?thesis
        by (simp add: generate_def Let_def split: stream_response.splits)
    qed
  qed
  from this [of "emit (Iteration (loopCount + 1)) st"] assms(3)
  have "currentPrompt st1 = currentPrompt st" by simp
  moreover from assms
  have "agent_loop env input mc loopCount st = agent_loop env input mc (loopCount + 1) st1"
    by (subst agent_loop.simps)
       (simp add: iteration_def after_generation_def dispatch_tags_def Let_def)
  ultimately show ?thesis by simp
qed

theorem blank_search_tag_does_not_end_loop_witness:
  "agent_loop blank_search_tag hello (choose_model hello) 0 (initial_state blank_search_tag hello) =
     agent_loop blank_search_tag hello (choose_model hello) (0 + 1)
       (snd (generate blank_search_tag hello (choose_model hello)
          (emit (Iteration (0 + 1)) (initial_state blank_search_tag hello)))) \<and>
   trace (snd (runAutonomousAgent blank_search_tag hello)) =
     [MemoryFetch, RouteCall ''hello'',
      Iteration 1, NativeCall ''gemini-2.5-flash'' ''hello'', StreamChunk ''One moment.'',
      StreamChunk ''<SEARCH> </SEARCH>'',
      Iteration 2, NativeCall ''gemini-2.5-flash'' ''hello'', StreamChunk ''Done.''] \<and>
   fst (runAutonomousAgent blank_search_tag hello) =
     Inr \<lparr>exit_point = LoopReturn, out_text = ''One moment.<SEARCH> </SEARCH>Done.''\<rparr>"
proof -
  let ?st = "initial_state blank_search_tag hello"
  let ?g = "generate blank_search_tag hello (choose_model hello) (emit (Iteration (0 + 1)) ?st)"
  have 1: "(0::nat) < MAX_LOOPS" by (simp add: MAX_LOOPS_def)
  have 2: "\<not> aborted ?st" by code_simp
  have 3: "?g = (None, snd ?g)" by code_simp
  have 4: "searchMatches (generatedThisLoop (snd ?g)) = ['' '']" by code_simp
  have 5: "trim '' '' = []" by code_simp
  have 6: "group1 (match_tag ''<DEEP>'' ''</DEEP>'' (generatedThisLoop (snd ?g))) = None"
    by code_simp
  have 7: "fallbackSearchContext (snd ?g) = []" by code_simp
  have tr: "trace (snd (runAutonomousAgent blank_search_tag hello)) =
     [MemoryFetch, RouteCall ''hello'',
      Iteration 1, NativeCall ''gemini-2.5-flash'' ''hello'', StreamChunk ''One moment.'',
      StreamChunk ''<SEARCH> </SEARCH>'',
      Iteration 2, NativeCall ''gemini-2.5-flash'' ''hello'', StreamChunk ''Done.'']"
    by code_simp
  have out: "fst (runAutonomousAgent blank_search_tag hello) =
     Inr \<lparr>exit_point = LoopReturn, out_text = ''One moment.<SEARCH> </SEARCH>Done.''\<rparr>"
    by code_simp
  from blank_search_tag_does_not_end_loop [OF 1 2 3 4 5 6 7] have
    "agent_loop blank_search_tag hello (choose_model hello) 0 ?st =
     agent_loop blank_search_tag hello (choose_model hello) (0 + 1) (snd ?g)" ..
  with tr out show ?thesis by blast
qed

text \<open>
  When the single search tag holds a query, the loop searches and generates again as
  well: the reactive search comes before the test of the single search tag.
\<close>

lemma search_tag_with_query_continues:
  "searchMatches ''<SEARCH>cats</SEARCH>'' = [''cats''] \<and>
   iteration_numbers (trace (snd (runAutonomousAgent search_then_answer about_cats))) = [1, 2] \<and>
   fst (runAutonomousAgent search_then_answer about_cats) =
     Inr \<lparr>exit_point = LoopReturn,
          out_text = ''<SEARCH>cats</SEARCH>Cats are small carnivores.''\<rparr>"
  by code_simp

text \<open>
  C6, as amended. If the text generated in an iteration holds a canvas tag (in one of the
  four accepted spellings) with content, and none of the rules before the canvas rule
  applies (no search tag with a query, no deep, image or project tag with content, not
  the single search tag without fallback context), then the accumulated text is reset to
  empty, the trimmed content goes to the canvas agent, and the canvas agent's result is
  returned as it is, without another iteration.
\<close>

theorem canvas_handoff:
  assumes "loopCount < MAX_LOOPS" and "\<not> aborted st"
    and "generate env input mc (emit (Iteration (loopCount + 1)) st) = (None, st1)"
    and "filter (\<lambda>q. q \<noteq> []) (map trim (searchMatches (generatedThisLoop st1))) = []"
    and "group1 (match_tag ''<DEEP>'' ''</DEEP>'' (generatedThisLoop st1)) = None"
    and "length (searchMatches (generatedThisLoop st1)) \<noteq> 1 \<or> fallbackSearchContext st1 \<noteq> []"
    and "group1 (match_tag ''<IMAGE>'' ''</IMAGE>'' (generatedThisLoop st1)) = None"
    and "group1 (match_tag ''<PROJECT>'' ''</PROJECT>'' (generatedThisLoop st1)) = None"
    and "group1 (canvasMatch (generatedThisLoop st1)) = Some c"
    and "runCanvasAgent env (trim c) = Inr r"
  shows "agent_loop env input mc loopCount st =
         (Inr \<lparr>exit_point = CanvasReturn, out_text = r\<rparr>,
          await env (emit (CanvasCall (trim c))
            (st1\<lparr>finalResponseText := [], currentAction := CANVAS, currentPrompt := trim c\<rparr>)))"
  using assms
  by (subst agent_loop.simps)
     (auto simp: iteration_def after_generation_def dispatch_tags_def Let_def)

theorem canvas_handoff_witness:
  "fst (agent_loop canvas_request hello (choose_model hello) 0 (initial_state canvas_request hello)) =
     Inr \<lparr>exit_point = CanvasReturn, out_text = ''canvas built: a todo app''\<rparr> \<and>
   finalResponseText (snd (agent_loop canvas_request hello (choose_model hello) 0
     (initial_state canvas_request hello))) = [] \<and>
   trace (snd (agent_loop canvas_request hello (choose_model hello) 0
     (initial_state canvas_request hello))) =
     [Iteration 1, NativeCall ''gemini-2.5-flash'' ''hello'', StreamChunk ''Sure, building it. '',
      StreamChunk ''<CANVAS> a todo app </CANVAS>'', CanvasCall ''a todo app'']"
proof -
  let ?st = "initial_state canvas_request hello"
  let ?g = "generate canvas_request hello (choose_model hello) (emit (Iteration (0 + 1)) ?st)"
  let ?t = "generatedThisLoop (snd ?g)"
  have 1: "(0::nat) < MAX_LOOPS" by (simp add: MAX_LOOPS_def)
  have 2: "\<not> aborted ?st" by code_simp
  have 3: "?g = (None, snd ?g)" by code_simp
  have 4: "filter (\<lambda>q. q \<noteq> []) (map trim (searchMatches ?t)) = []" by code_simp
  have 5: "group1 (match_tag ''<DEEP>'' ''</DEEP>'' ?t) = None" by code_simp
  have 6: "length (searchMatches ?t) \<noteq> 1 \<or> fallbackSearchContext (snd ?g) \<noteq> []" by code_simp
  have 7: "group1 (match_tag ''<IMAGE>'' ''</IMAGE>'' ?t) = None" by code_simp
  have 8: "group1 (match_tag ''<PROJECT>'' ''</PROJECT>'' ?t) = None" by code_simp
  have 9: "group1 (canvasMatch ?t) = Some '' a todo app ''" by code_simp
  have 10: "runCanvasAgent canvas_request (trim '' a todo app '') = Inr ''canvas built: a todo app''"
    by code_simp
  have 11: "trace (await canvas_request (emit (CanvasCall (trim '' a todo app ''))
            ((snd ?g)\<lparr>finalResponseText := [], currentAction := CANVAS,
               currentPrompt := trim '' a todo app ''\<rparr>))) =
     [Iteration 1, NativeCall ''gemini-2.5-flash'' ''hello'', StreamChunk ''Sure, building it. '',
      StreamChunk ''<CANVAS> a todo app </CANVAS>'', CanvasCall ''a todo app'']" by code_simp
  from canvas_handoff [OF 1 2 3 4 5 6 7 8 9 10] 11 show ?thesis by simp
qed

text \<open>
  C6, as stated, fails when a tag of higher priority stands in the same text: with an
  image tag before the canvas tag the loop continues with the image prompt, and the
  canvas agent is never called.
\<close>

theorem canvas_tag_after_image_tag_not_handed_off:
  "group1 (canvasMatch ''<IMAGE>a cat</IMAGE><CANVAS>a cat gallery</CANVAS>'') = Some ''a cat gallery'' \<and>
   canvas_calls (trace (snd (runAutonomousAgent image_and_canvas about_cats))) = [] \<and>
   iteration_numbers (trace (snd (runAutonomousAgent image_and_canvas about_cats))) = [1, 2] \<and>
   fst (runAutonomousAgent image_and_canvas about_cats) =
     Inr \<lparr>exit_point = LoopReturn,
          out_text = ''<IMAGE>a cat</IMAGE><CANVAS>a cat gallery</CANVAS>Here is your cat.''\<rparr>"
  by code_simp

end
